theory Spec2Isabelle
  imports Main "HOL-Library.Sublist"
begin

section \<open>Configuration and process start-up (passweaver-api.mjs)\<close>

text \<open>
  \<^verbatim>\<open>Config.get()\<close> lives in \<^verbatim>\<open>src/config.mjs\<close>, which is not among the sources; the
  configuration object is therefore a parameter. A key that is missing from the
  environment is \<open>None\<close> (JavaScript \<^verbatim>\<open>undefined\<close>). \<open>jwt_duration\<close> is the configured
  token lifetime in seconds, as \<^verbatim>\<open>jsonwebtoken\<close> reads \<^verbatim>\<open>expiresIn\<close>; \<open>listen_port\<close> is the
  port as JavaScript prints it.
\<close>

record config =
  master_key :: "string option"
  jwt_key :: "string option"
  jwt_duration :: int
  log_dir :: string
  listen_port :: string
  version :: string

text \<open>JavaScript truthiness of a value that is a string or \<^verbatim>\<open>undefined\<close>.\<close>

definition truthy_key :: "string option \<Rightarrow> bool" where
  "truthy_key k = (case k of None \<Rightarrow> False | Some s \<Rightarrow> s \<noteq> [])"

text \<open>
  The module body of \<^verbatim>\<open>passweaver-api.mjs\<close> is a straight line of effects. Each effect
  is an event; \<^verbatim>\<open>process.exit\<close> ends the process, so nothing follows it. The second
  argument says whether \<^verbatim>\<open>FS.existsSync(cfg.log_dir)\<close> holds; the calls that create the
  directory and the log streams are taken to succeed.
\<close>

datatype middleware = RateLimit | ExpressJson | MorganCombined | ErrorHandler

datatype startup_event =
    ConsoleLog string
  | ConsoleError string
  | Exit nat
  | Use middleware
  | MkdirSync string
  | CreateStream string
  | Route string
  | AllPaths
  | Listen string

definition main :: "config \<Rightarrow> bool \<Rightarrow> startup_event list" where
  "main cfg log_dir_exists =
     ConsoleLog (''PassWeaver API '' @ version cfg @ '' starting...'') #
     (if \<not> truthy_key (master_key cfg) then
        [ConsoleError ''Master key cannot be found: verify environment variable name and value'',
         Exit 1]
      else if \<not> truthy_key (jwt_key cfg) then
        [ConsoleError ''JWT key cannot be found: verify environment variable name and value'',
         Exit 2]
      else
        [Use RateLimit, Use ExpressJson] @
        (if \<not> log_dir_exists then [MkdirSync (log_dir cfg)] else []) @
        [CreateStream (log_dir cfg @ ''/passweaver-api-access.log''),
         Use MorganCombined,
         CreateStream (log_dir cfg @ ''/passweaver-api-errors.log''),
         Route ''/api/v1/items'',
         Route ''/api/v1/folders'',
         Route ''/api/v1/groups'',
         Route ''/api/v1/users'',
         Route ''/api/v1/login'',
         Route ''/api/v1/util'',
         Route ''/api/v1/events'',
         Use ErrorHandler,
         AllPaths,
         ConsoleLog (''Listening on port '' @ listen_port cfg),
         Listen (listen_port cfg)])"

fun is_route :: "startup_event \<Rightarrow> bool" where
  "is_route (Route p) = True"
| "is_route AllPaths = True"
| "is_route e = False"

fun is_listen :: "startup_event \<Rightarrow> bool" where
  "is_listen (Listen p) = True"
| "is_listen e = False"

fun is_exit :: "startup_event \<Rightarrow> bool" where
  "is_exit (Exit n) = True"
| "is_exit e = False"

fun exit_code :: "startup_event \<Rightarrow> nat" where
  "exit_code (Exit n) = n"
| "exit_code e = 0"

section \<open>JavaScript values and payload validation\<close>

text \<open>
  Dates are kept as the code writes them: \<open>Date y m d h mi s\<close> is the JavaScript
  \<^verbatim>\<open>new Date(y, m, d, h, mi, s)\<close> with its arguments untouched, \<open>Instant t\<close> is the
  clock reading \<open>t\<close> (seconds) that the store's \<^verbatim>\<open>now()\<close> default and \<^verbatim>\<open>@updatedAt\<close> take.
\<close>

datatype datetime = Instant int | Date nat nat nat nat nat nat

datatype jsval =
    JNull
  | JBool bool
  | JNum int
  | JStr string
  | JDate datetime
  | JArr "jsval list"
  | JObj "(string \<times> jsval) list"

text \<open>\<open>jsprop v k\<close> is the property read \<^verbatim>\<open>v.k\<close>; \<open>None\<close> is \<^verbatim>\<open>undefined\<close>.\<close>

fun jsprop :: "jsval \<Rightarrow> string \<Rightarrow> jsval option" where
  "jsprop (JObj kvs) k = map_of kvs k"
| "jsprop v k = None"

fun truthy :: "jsval option \<Rightarrow> bool" where
  "truthy None = False"
| "truthy (Some JNull) = False"
| "truthy (Some (JBool b)) = b"
| "truthy (Some (JNum n)) = (n \<noteq> 0)"
| "truthy (Some (JStr s)) = (s \<noteq> [])"
| "truthy (Some (JDate d)) = True"
| "truthy (Some (JArr xs)) = True"
| "truthy (Some (JObj kvs)) = True"

text \<open>\<open>contains p s\<close>: the text \<open>p\<close> occurs in \<open>s\<close> (an unanchored regular expression
  made of literal alternatives matches exactly when one alternative occurs).\<close>

fun contains :: "string \<Rightarrow> string \<Rightarrow> bool" where
  "contains p [] = (p = [])"
| "contains p (c # cs) = (prefix p (c # cs) \<or> contains p cs)"

text \<open>
  The four payload schemas of users.mjs use only: \<^verbatim>\<open>type: object\<close> at the top,
  \<^verbatim>\<open>type: string\<close> (once with a pattern of literal alternatives), \<^verbatim>\<open>type: boolean\<close> and
  \<^verbatim>\<open>required\<close>. \<open>validate\<close> is \<^verbatim>\<open>jsonschema.validate(...).valid\<close> for such schemas: a
  property that is absent is not checked, further properties are allowed.
\<close>

datatype proptype = TString | TStringPattern "string list" | TBoolean

record schema =
  properties :: "(string \<times> proptype) list"
  required :: "string list"

fun has_type :: "proptype \<Rightarrow> jsval \<Rightarrow> bool" where
  "has_type TString (JStr s) = True"
| "has_type (TStringPattern alts) (JStr s) = list_ex (\<lambda>a. contains a s) alts"
| "has_type TBoolean (JBool b) = True"
| "has_type t v = False"

fun property_ok :: "(string \<times> jsval) list \<Rightarrow> string \<times> proptype \<Rightarrow> bool" where
  "property_ok kvs (k, t) = (case map_of kvs k of None \<Rightarrow> True | Some v \<Rightarrow> has_type t v)"

fun validate :: "jsval \<Rightarrow> schema \<Rightarrow> bool" where
  "validate (JObj kvs) sch =
     (list_all (property_ok kvs) (properties sch) \<and>
      list_all (\<lambda>k. map_of kvs k \<noteq> None) (required sch))"
| "validate v sch = False"

definition createSchema :: schema where
  "createSchema =
     \<lparr>properties = [(''login'', TString), (''firstname'', TString), (''lastname'', TString),
                    (''authmethod'', TString), (''locale'', TString), (''email'', TString),
                    (''secret'', TString)],
      required = [''login'', ''firstname'', ''email'', ''secret'']\<rparr>"

definition updateSchema :: schema where
  "updateSchema =
     \<lparr>properties = [(''login'', TString), (''firstname'', TString), (''lastname'', TString),
                    (''authmethod'', TStringPattern [''local'', ''ldap'']),
                    (''locale'', TString), (''email'', TString), (''secret'', TString),
                    (''active'', TBoolean)],
      required = []\<rparr>"

definition updatePersonalPassword :: schema where
  "updatePersonalPassword =
     \<lparr>properties = [(''personalsecret'', TString)], required = [''personalsecret'']\<rparr>"

definition personalLogin :: schema where
  "personalLogin = \<lparr>properties = [(''password'', TString)], required = [''password'']\<rparr>"

section \<open>The store: tables of the Prisma schema\<close>

record users_row =
  u_id :: string
  u_login :: string
  u_lastname :: string
  u_firstname :: "string option"
  u_authmethod :: string
  u_locale :: string
  u_email :: string
  u_secret :: string
  u_secretexpiresat :: datetime
  u_personalsecret :: "string option"
  u_active :: bool
  u_createdat :: datetime
  u_updatedat :: datetime

record folders_row =
  f_id :: string
  f_parent :: "string option"
  f_description :: string
  f_personal :: bool
  f_user :: "string option"
  f_createdat :: datetime
  f_updatedat :: datetime

record items_row =
  i_id :: string
  i_folder :: string
  i_personal :: bool
  i_title :: string
  i_data :: string
  i_dataiv :: string
  i_dataauthtag :: string
  i_metadata :: "string option"
  i_createdat :: datetime
  i_updatedat :: datetime
  i_accessedat :: "datetime option"

record usersgroups_row =
  ug_id :: string
  ug_user :: string
  ug_group :: string
  ug_createdat :: datetime
  ug_updatedat :: datetime

record db =
  users :: "users_row list"
  folders :: "folders_row list"
  items :: "items_row list"
  usersGroups :: "usersgroups_row list"

text \<open>
  What an awaited call can reject with. \<open>StoreFault\<close> is any rejection that comes from
  outside the tables modelled here: a lost connection, a foreign-key violation against
  a table that is not modelled, a crash of the engine.
\<close>

datatype error =
    StoreFault
  | UniqueConstraint
  | RecordNotFound
  | PrismaValidation
  | TypeError
  | SignError

type_synonym mutation = "db \<Rightarrow> error + db"

text \<open>
  The audit sink. Modelled from the spec: \<^verbatim>\<open>actions.log\<close> is \<^verbatim>\<open>src/action.mjs\<close>, which
  is not among the sources; the spec describes it as a fire-and-forget sink of
  (actor, action, subject type, subject id) records.
\<close>

record action =
  al_user :: "string option"
  al_action :: string
  al_itemtype :: string
  al_itemid :: "string option"

text \<open>
  The world a request handler runs in: the committed tables, the writes a transaction
  client has collected and not yet committed, the outcome the storage engine will give
  to each coming call (\<open>True\<close>: the call is rejected; once the list is used up, no call
  is rejected), the audit records and the number of ids drawn so far.
\<close>

record world =
  db :: db
  pending :: "mutation list"
  faults :: "bool list"
  audit :: "action list"
  ids :: nat

type_synonym 'a io = "world \<Rightarrow> (error + 'a) \<times> world"

definition resolve :: "'a \<Rightarrow> 'a io" where
  "resolve a w = (Inr a, w)"

definition reject :: "error \<Rightarrow> 'a io" where
  "reject e w = (Inl e, w)"

text \<open>\<open>await m f\<close> is \<^verbatim>\<open>const x = await m; f(x)\<close>: a rejection of \<open>m\<close> is thrown on.\<close>

definition await :: "'a io \<Rightarrow> ('a \<Rightarrow> 'b io) \<Rightarrow> 'b io" where
  "await m f w = (case m w of (Inl e, w') \<Rightarrow> (Inl e, w') | (Inr a, w') \<Rightarrow> f a w')"

subsection \<open>Prisma clients\<close>

text \<open>
  A call on the module's client \<^verbatim>\<open>prisma\<close> is its own transaction: it is committed when
  it returns. A call on the client \<^verbatim>\<open>tx\<close> that \<^verbatim>\<open>prisma.$transaction\<close> hands to its
  callback belongs to that transaction: it takes effect when the callback returns and
  is dropped when the callback throws.
\<close>

datatype client = Prisma | Tx

fun replay :: "mutation list \<Rightarrow> db \<Rightarrow> error + db" where
  "replay [] d = Inr d"
| "replay (m # ms) d = (case m d of Inl e \<Rightarrow> Inl e | Inr d' \<Rightarrow> replay ms d')"

text \<open>The next awaited store call is rejected by the storage engine.\<close>

definition rejected :: "world \<Rightarrow> bool" where
  "rejected w = (case faults w of [] \<Rightarrow> False | b # bs \<Rightarrow> b)"

definition query :: "(db \<Rightarrow> 'a) \<Rightarrow> 'a io" where
  "query f w =
     (let w' = w\<lparr>faults := tl (faults w)\<rparr> in
      if rejected w then (Inl StoreFault, w') else (Inr (f (db w')), w'))"

definition mutate :: "client \<Rightarrow> mutation \<Rightarrow> unit io" where
  "mutate c m w =
     (let w' = w\<lparr>faults := tl (faults w)\<rparr> in
      if rejected w then (Inl StoreFault, w')
      else
        (case c of
           Prisma \<Rightarrow>
             (case m (db w') of
                Inl e \<Rightarrow> (Inl e, w')
              | Inr d \<Rightarrow> (Inr (), w'\<lparr>db := d\<rparr>))
         | Tx \<Rightarrow>
             (case replay (pending w' @ [m]) (db w') of
                Inl e \<Rightarrow> (Inl e, w')
              | Inr d \<Rightarrow> (Inr (), w'\<lparr>pending := pending w' @ [m]\<rparr>))))"

definition transaction :: "(client \<Rightarrow> 'a io) \<Rightarrow> 'a io" where
  "transaction callback w =
     (case callback Tx (w\<lparr>pending := []\<rparr>) of
        (Inl e, w') \<Rightarrow> (Inl e, w'\<lparr>pending := []\<rparr>)
      | (Inr a, w') \<Rightarrow>
          (case replay (pending w') (db w') of
             Inl e \<Rightarrow> (Inl e, w'\<lparr>pending := []\<rparr>)
           | Inr d \<Rightarrow> (Inr a, w'\<lparr>db := d, pending := []\<rparr>)))"

subsection \<open>The model queries the controllers call\<close>

definition users_findUnique :: "string \<Rightarrow> db \<Rightarrow> users_row option" where
  "users_findUnique i d = find (\<lambda>u. u_id u = i) (users d)"

definition users_create :: "users_row \<Rightarrow> mutation" where
  "users_create r d =
     (if list_ex (\<lambda>u. u_id u = u_id r) (users d) then Inl UniqueConstraint
      else Inr (d\<lparr>users := users d @ [r]\<rparr>))"

definition folders_create :: "folders_row \<Rightarrow> mutation" where
  "folders_create r d =
     (if list_ex (\<lambda>f. f_id f = f_id r) (folders d) then Inl UniqueConstraint
      else Inr (d\<lparr>folders := folders d @ [r]\<rparr>))"

definition usersGroups_create :: "usersgroups_row \<Rightarrow> mutation" where
  "usersGroups_create r d =
     (if list_ex (\<lambda>g. ug_id g = ug_id r) (usersGroups d) then Inl UniqueConstraint
      else Inr (d\<lparr>usersGroups := usersGroups d @ [r]\<rparr>))"

definition users_updateUnique :: "string \<Rightarrow> (users_row \<Rightarrow> users_row) \<Rightarrow> mutation" where
  "users_updateUnique i change d =
     (if list_ex (\<lambda>u. u_id u = i) (users d)
      then Inr (d\<lparr>users := map (\<lambda>u. if u_id u = i then change u else u) (users d)\<rparr>)
      else Inl RecordNotFound)"

definition usersGroups_deleteMany :: "string \<Rightarrow> mutation" where
  "usersGroups_deleteMany i d =
     Inr (d\<lparr>usersGroups := filter (\<lambda>g. ug_user g \<noteq> i) (usersGroups d)\<rparr>)"

definition items_deleteMany :: "string \<Rightarrow> mutation" where
  "items_deleteMany fid d = Inr (d\<lparr>items := filter (\<lambda>x. i_folder x \<noteq> fid) (items d)\<rparr>)"

definition folders_delete :: "string \<Rightarrow> mutation" where
  "folders_delete fid d =
     (if list_ex (\<lambda>f. f_id f = fid) (folders d)
      then Inr (d\<lparr>folders := filter (\<lambda>f. f_id f \<noteq> fid) (folders d)\<rparr>)
      else Inl RecordNotFound)"

definition users_delete :: "string \<Rightarrow> mutation" where
  "users_delete i d =
     (if list_ex (\<lambda>u. u_id u = i) (users d)
      then Inr (d\<lparr>users := filter (\<lambda>u. u_id u \<noteq> i) (users d)\<rparr>)
      else Inl RecordNotFound)"

section \<open>Tokens and the authorization module (src/auth.mjs)\<close>

text \<open>
  The library \<^verbatim>\<open>jsonwebtoken\<close> is modelled symbolically: a signature is the term
  \<open>HMAC a k c\<close> of the algorithm, the key and the claims it was computed over, so two
  signatures are equal only if all three are. Times are whole seconds, as the library
  takes them (\<^verbatim>\<open>Math.floor(Date.now() / 1000)\<close>).
\<close>

datatype alg = HS256 | HS384 | HS512 | RS256 | AlgNone

record jwt_payload =
  jwt_user :: string
  jwt_admin :: bool
  jwt_personalfolder :: bool
  jwt_iat :: int
  jwt_nbf :: "int option"
  jwt_exp :: "int option"

datatype signature = Unsigned | HMAC alg string jwt_payload

record jwt =
  jwt_alg :: alg
  jwt_claims :: jwt_payload
  jwt_signature :: signature

text \<open>
  \<^verbatim>\<open>jsonwebtoken.sign(payload, key, {algorithm, expiresIn})\<close> at clock reading \<open>clock\<close>:
  it throws without a key, stamps \<^verbatim>\<open>iat\<close> and \<^verbatim>\<open>exp = iat + expiresIn\<close>, and signs.
\<close>

definition jsonwebtoken_sign ::
  "string \<Rightarrow> bool \<Rightarrow> bool \<Rightarrow> string option \<Rightarrow> alg \<Rightarrow> int \<Rightarrow> int \<Rightarrow> error + jwt" where
  "jsonwebtoken_sign user admin personalfolder key a expiresIn clock =
     (case key of
        None \<Rightarrow> Inl SignError
      | Some k \<Rightarrow>
          if k = [] then Inl SignError
          else
            (let claims = \<lparr>jwt_user = user, jwt_admin = admin,
                            jwt_personalfolder = personalfolder, jwt_iat = clock,
                            jwt_nbf = None, jwt_exp = Some (clock + expiresIn)\<rparr>
             in Inr \<lparr>jwt_alg = a, jwt_claims = claims, jwt_signature = HMAC a k claims\<rparr>))"

text \<open>
  One piece of an Authorization header, split at spaces: the compact form of a token,
  or any other text.
\<close>

datatype bearer = Text string | Compact jwt

datatype jwt_error = JsonWebTokenError string | NotBeforeError | TokenExpiredError

text \<open>
  \<^verbatim>\<open>jsonwebtoken.verify(token, key)\<close> with a secret (not a PEM key) and no options, at
  clock reading \<open>clock\<close>. The checks run in the library's order: shape, signature
  present, algorithm among the HMAC ones, signature, not-before, expiry (a token is
  expired from the second \<^verbatim>\<open>exp\<close> on).
\<close>

definition jsonwebtoken_verify :: "bearer option \<Rightarrow> string option \<Rightarrow> int \<Rightarrow> jwt_error + jwt_payload" where
  "jsonwebtoken_verify token key clock =
     (case token of
        None \<Rightarrow> Inl (JsonWebTokenError ''jwt must be provided'')
      | Some (Text s) \<Rightarrow>
          Inl (JsonWebTokenError (if s = [] then ''jwt must be provided'' else ''jwt malformed''))
      | Some (Compact t) \<Rightarrow>
          (case key of
             None \<Rightarrow> Inl (JsonWebTokenError ''secret or public key must be provided'')
           | Some k \<Rightarrow>
               if k = [] then Inl (JsonWebTokenError ''secret or public key must be provided'')
               else if jwt_signature t = Unsigned
                 then Inl (JsonWebTokenError ''jwt signature is required'')
               else if jwt_alg t \<noteq> HS256 \<and> jwt_alg t \<noteq> HS384 \<and> jwt_alg t \<noteq> HS512
                 then Inl (JsonWebTokenError ''invalid algorithm'')
               else if jwt_signature t \<noteq> HMAC (jwt_alg t) k (jwt_claims t)
                 then Inl (JsonWebTokenError ''invalid signature'')
               else if (case jwt_nbf (jwt_claims t) of None \<Rightarrow> False | Some n \<Rightarrow> clock < n)
                 then Inl NotBeforeError
               else if (case jwt_exp (jwt_claims t) of None \<Rightarrow> False | Some x \<Rightarrow> x \<le> clock)
                 then Inl TokenExpiredError
               else Inr (jwt_claims t)))"

subsection \<open>Requests and responses\<close>

record request =
  authorization :: "bearer list option"
  params_id :: string
  body :: jsval
  req_jwt :: "jwt_payload option"
  req_user :: "string option"
  req_personalfolder :: "bool option"

text \<open>
  \<^verbatim>\<open>R.ok\<close> and \<^verbatim>\<open>R.ko\<close> are \<^verbatim>\<open>src/response.mjs\<close>, which is not among the sources; they wrap
  the data, or the message, of a reply and are kept as constructors.
\<close>

datatype data = NoData | Value jsval | JwtData jwt

datatype reply = Ko string | Ok data

record response =
  status :: nat
  reply :: reply

definition send :: "nat \<Rightarrow> reply \<Rightarrow> response" where
  "send code r = \<lparr>status = code, reply = r\<rparr>"

text \<open>
  What the controllers take from modules that are not among the sources: the
  configuration, the clock, \<^verbatim>\<open>newId\<close> (src/id.mjs; the \<open>n\<close>th id drawn is \<open>newId n\<close>),
  and \<^verbatim>\<open>hashPassword\<close> and \<^verbatim>\<open>checkPassword\<close> (src/crypt.mjs).
\<close>

record env =
  config_get :: config
  clock :: int
  newId :: "nat \<Rightarrow> string"
  hashPassword :: "string \<Rightarrow> string"
  checkPassword :: "string \<Rightarrow> string option \<Rightarrow> bool"

definition draw_id :: "env \<Rightarrow> string io" where
  "draw_id e w = (Inr (newId e (ids w)), w\<lparr>ids := Suc (ids w)\<rparr>)"

definition actions_log :: "string option \<Rightarrow> string \<Rightarrow> string \<Rightarrow> string option \<Rightarrow> unit io" where
  "actions_log u a t i w =
     (Inr (), w\<lparr>audit := audit w @ [\<lparr>al_user = u, al_action = a, al_itemtype = t, al_itemid = i\<rparr>]\<rparr>)"

subsection \<open>isAdmin, createToken, validateJWT\<close>

datatype entity = UserId string | Request request

definition isAdmin :: "entity \<Rightarrow> bool io" where
  "isAdmin entity =
     (case entity of
        UserId u \<Rightarrow>
          await (query (\<lambda>d. filter (\<lambda>g. ug_group g = ''A'' \<and> ug_user g = u) (usersGroups d)))
            (\<lambda>perm. resolve (0 < length perm))
      | Request r \<Rightarrow>
          (case req_jwt r of None \<Rightarrow> reject TypeError | Some j \<Rightarrow> resolve (jwt_admin j)))"

definition createToken :: "env \<Rightarrow> string \<Rightarrow> bool \<Rightarrow> jwt io" where
  "createToken e user personalfolder =
     await (isAdmin (UserId user))
       (\<lambda>isadmin.
          case jsonwebtoken_sign user isadmin personalfolder (jwt_key (config_get e)) HS512
                 (jwt_duration (config_get e)) (clock e) of
            Inl err \<Rightarrow> reject err
          | Inr t \<Rightarrow> resolve t)"

definition second :: "'a list \<Rightarrow> 'a option" where
  "second xs = (case xs of a # b # r \<Rightarrow> Some b | _ \<Rightarrow> None)"

text \<open>The middleware either answers 401 (\<open>Inl\<close>) or calls \<^verbatim>\<open>next()\<close> on the request it
  has filled in (\<open>Inr\<close>).\<close>

definition validateJWT :: "env \<Rightarrow> request \<Rightarrow> response + request" where
  "validateJWT e req =
     (case authorization req of
        None \<Rightarrow> Inl (send 401 (Ko ''A token is required for authentication''))
      | Some pieces \<Rightarrow>
          (case jsonwebtoken_verify (second pieces) (jwt_key (config_get e)) (clock e) of
             Inr decoded \<Rightarrow>
               Inr (req\<lparr>req_jwt := Some decoded,
                        req_user := Some (jwt_user decoded),
                        req_personalfolder := Some (jwt_personalfolder decoded)\<rparr>)
           | Inl err \<Rightarrow>
               Inl (send 401
                      (Ko (if err = TokenExpiredError then ''Token expired''
                           else ''Invalid token'')))))"

section \<open>The user controller (api/v1/controllers/users.mjs)\<close>

text \<open>
  Every handler is \<^verbatim>\<open>try { ... } catch (err) { next(err) }\<close>; \<^verbatim>\<open>next(err)\<close> reaches the
  error handler of passweaver-api.mjs, which answers 500.
\<close>

definition try_next :: "response io \<Rightarrow> world \<Rightarrow> response \<times> world" where
  "try_next handler w =
     (case handler w of
        (Inl err, w') \<Rightarrow> (send 500 (Ko ''Internal error''), w')
      | (Inr res, w') \<Rightarrow> (res, w'))"

text \<open>A value handed to a \<^verbatim>\<open>String\<close> column: Prisma rejects anything but a string.\<close>

definition string_arg :: "jsval option \<Rightarrow> string io" where
  "string_arg v = (case v of Some (JStr s) \<Rightarrow> resolve s | _ \<Rightarrow> reject PrismaValidation)"

text \<open>\<^verbatim>\<open>v ?? d\<close>\<close>

definition nullish :: "jsval option \<Rightarrow> jsval \<Rightarrow> jsval option" where
  "nullish v d = (case v of None \<Rightarrow> Some d | Some JNull \<Rightarrow> Some d | Some x \<Rightarrow> Some x)"

definition as_string :: "jsval option \<Rightarrow> string option" where
  "as_string v = (case v of Some (JStr s) \<Rightarrow> Some s | _ \<Rightarrow> None)"

subsection \<open>get\<close>

definition selected :: "users_row \<Rightarrow> (string \<times> jsval) list" where
  "selected u =
     [(''id'', JStr (u_id u)),
      (''login'', JStr (u_login u)),
      (''firstname'', (case u_firstname u of None \<Rightarrow> JNull | Some s \<Rightarrow> JStr s)),
      (''lastname'', JStr (u_lastname u)),
      (''authmethod'', JStr (u_authmethod u)),
      (''locale'', JStr (u_locale u)),
      (''email'', JStr (u_email u)),
      (''personalsecret'', (case u_personalsecret u of None \<Rightarrow> JNull | Some s \<Rightarrow> JStr s)),
      (''active'', JBool (u_active u)),
      (''createdat'', JDate (u_createdat u)),
      (''updatedat'', JDate (u_updatedat u))]"

definition get :: "request \<Rightarrow> world \<Rightarrow> response \<times> world" where
  "get req =
     try_next
       (await (query (users_findUnique (params_id req)))
          (\<lambda>found.
             case found of
               None \<Rightarrow> resolve (send 404 (Ko ''User not found''))
             | Some u \<Rightarrow>
                 (let user = selected u;
                      user = user @ [(''haspersonalsecret'',
                                      JBool (map_of user ''personalsecret'' \<noteq> Some JNull))];
                      user = filter (\<lambda>kv. fst kv \<noteq> ''personalsecret'') user
                  in resolve (send 200 (Ok (Value (JObj user)))))))"

subsection \<open>create\<close>

text \<open>
  The data of \<^verbatim>\<open>prisma.users.create\<close> takes its fields from the body. The schema
  requires \<^verbatim>\<open>login\<close>, \<^verbatim>\<open>firstname\<close>, \<^verbatim>\<open>email\<close> and \<^verbatim>\<open>secret\<close> but not \<^verbatim>\<open>lastname\<close>, which is a
  required column: without it Prisma rejects the call before anything is written.
  The three writes are issued on the module's client, one after the other.
\<close>

definition create :: "env \<Rightarrow> request \<Rightarrow> world \<Rightarrow> response \<times> world" where
  "create e req =
     try_next
       (await (isAdmin (Request req))
          (\<lambda>admin.
             if \<not> admin then resolve (send 403 (Ko ''Unauthorized''))
             else if \<not> validate (body req) createSchema then resolve (send 400 (Ko ''Bad request''))
             else
               await (draw_id e) (\<lambda>newid.
               await (string_arg (jsprop (body req) ''secret'')) (\<lambda>secret.
               await (string_arg (jsprop (body req) ''login'')) (\<lambda>login.
               await (string_arg (jsprop (body req) ''firstname'')) (\<lambda>firstname.
               await (string_arg (jsprop (body req) ''lastname'')) (\<lambda>lastname.
               await (string_arg (nullish (jsprop (body req) ''locale'') (JStr ''en_US''))) (\<lambda>locale.
               await (string_arg (nullish (jsprop (body req) ''authmethod'') (JStr ''local''))) (\<lambda>authmethod.
               await (string_arg (jsprop (body req) ''email'')) (\<lambda>email.
               await (mutate Prisma (users_create
                        \<lparr>u_id = newid, u_login = login, u_lastname = lastname,
                         u_firstname = Some firstname, u_authmethod = authmethod,
                         u_locale = locale, u_email = email,
                         u_secret = hashPassword e secret,
                         u_secretexpiresat = Date 2050 12 31 23 59 59,
                         u_personalsecret = None, u_active = True,
                         u_createdat = Instant (clock e),
                         u_updatedat = Instant (clock e)\<rparr>)) (\<lambda>_.
               await (draw_id e) (\<lambda>newFolderId.
               await (mutate Prisma (folders_create
                        \<lparr>f_id = newFolderId, f_parent = Some ''P'',
                         f_description = login, f_personal = True, f_user = Some newid,
                         f_createdat = Instant (clock e),
                         f_updatedat = Instant (clock e)\<rparr>)) (\<lambda>_.
               await (draw_id e) (\<lambda>newid2.
               await (mutate Prisma (usersGroups_create
                        \<lparr>ug_id = newid2, ug_user = newid, ug_group = ''E'',
                         ug_createdat = Instant (clock e),
                         ug_updatedat = Instant (clock e)\<rparr>)) (\<lambda>_.
               await (actions_log (req_user req) ''create'' ''user'' (Some newid)) (\<lambda>_.
               resolve (send 201 (Ok (Value (JObj [(''id'', JStr newid)]))))))))))))))))))))"

subsection \<open>update\<close>

record updateStruct =
  us_login :: "jsval option"
  us_firstname :: "jsval option"
  us_lastname :: "jsval option"
  us_authmethod :: "jsval option"
  us_locale :: "jsval option"
  us_email :: "jsval option"
  us_secret :: "string option"
  us_secretexpiresat :: "datetime option"
  us_active :: "jsval option"

definition empty_struct :: updateStruct where
  "empty_struct =
     \<lparr>us_login = None, us_firstname = None, us_lastname = None, us_authmethod = None,
      us_locale = None, us_email = None, us_secret = None, us_secretexpiresat = None,
      us_active = None\<rparr>"

text \<open>Prisma checks the data of an update against the column types before it sends
  anything to the store.\<close>

definition string_or_absent :: "jsval option \<Rightarrow> bool" where
  "string_or_absent v = (case v of None \<Rightarrow> True | Some (JStr s) \<Rightarrow> True | Some x \<Rightarrow> False)"

definition boolean_or_absent :: "jsval option \<Rightarrow> bool" where
  "boolean_or_absent v = (case v of None \<Rightarrow> True | Some (JBool b) \<Rightarrow> True | Some x \<Rightarrow> False)"

definition well_typed :: "updateStruct \<Rightarrow> bool" where
  "well_typed us =
     (string_or_absent (us_login us) \<and> string_or_absent (us_firstname us) \<and>
      string_or_absent (us_lastname us) \<and> string_or_absent (us_authmethod us) \<and>
      string_or_absent (us_locale us) \<and> string_or_absent (us_email us) \<and>
      boolean_or_absent (us_active us))"

text \<open>
  The row after \<^verbatim>\<open>prisma.users.update({data: us})\<close>: a column whose field is absent
  from the data keeps its value; \<^verbatim>\<open>updatedat\<close> (\<^verbatim>\<open>@updatedAt\<close>) takes the clock when the
  data sets anything.
\<close>

definition apply_update :: "updateStruct \<Rightarrow> datetime \<Rightarrow> users_row \<Rightarrow> users_row" where
  "apply_update us now u =
     u\<lparr>u_login := (case us_login us of Some (JStr s) \<Rightarrow> s | _ \<Rightarrow> u_login u),
       u_firstname := (case us_firstname us of Some (JStr s) \<Rightarrow> Some s | _ \<Rightarrow> u_firstname u),
       u_lastname := (case us_lastname us of Some (JStr s) \<Rightarrow> s | _ \<Rightarrow> u_lastname u),
       u_authmethod := (case us_authmethod us of Some (JStr s) \<Rightarrow> s | _ \<Rightarrow> u_authmethod u),
       u_locale := (case us_locale us of Some (JStr s) \<Rightarrow> s | _ \<Rightarrow> u_locale u),
       u_email := (case us_email us of Some (JStr s) \<Rightarrow> s | _ \<Rightarrow> u_email u),
       u_secret := (case us_secret us of Some h \<Rightarrow> h | None \<Rightarrow> u_secret u),
       u_secretexpiresat :=
         (case us_secretexpiresat us of Some t \<Rightarrow> t | None \<Rightarrow> u_secretexpiresat u),
       u_active := (case us_active us of Some (JBool b) \<Rightarrow> b | _ \<Rightarrow> u_active u),
       u_updatedat := (if us = empty_struct then u_updatedat u else now)\<rparr>"

text \<open>\<^verbatim>\<open>req.body.hasOwnProperty("active")\<close>: a body that carries a property named
  \<^verbatim>\<open>hasOwnProperty\<close> hides the method, and the call throws.\<close>

definition hasOwnProperty :: "jsval \<Rightarrow> string \<Rightarrow> bool io" where
  "hasOwnProperty v k =
     (if jsprop v ''hasOwnProperty'' \<noteq> None then reject TypeError
      else resolve (jsprop v k \<noteq> None))"

definition build_update :: "env \<Rightarrow> jsval \<Rightarrow> updateStruct io" where
  "build_update e b =
     (let us = empty_struct;
          us = (if truthy (jsprop b ''login'') then us\<lparr>us_login := jsprop b ''login''\<rparr> else us);
          us = (if truthy (jsprop b ''firstname'')
                then us\<lparr>us_firstname := jsprop b ''firstname''\<rparr> else us);
          us = (if truthy (jsprop b ''lastname'')
                then us\<lparr>us_lastname := jsprop b ''lastname''\<rparr> else us);
          us = (if truthy (jsprop b ''authmethod'')
                then us\<lparr>us_authmethod := jsprop b ''authmethod''\<rparr> else us);
          us = (if truthy (jsprop b ''locale'') then us\<lparr>us_locale := jsprop b ''locale''\<rparr> else us);
          us = (if truthy (jsprop b ''email'') then us\<lparr>us_email := jsprop b ''email''\<rparr> else us)
      in
      await (if truthy (jsprop b ''secret'')
             then await (string_arg (jsprop b ''secret''))
                    (\<lambda>secret. resolve (us\<lparr>us_secret := Some (hashPassword e secret),
                                           us_secretexpiresat := Some (Date 2050 12 31 23 59 59)\<rparr>))
             else resolve us)
        (\<lambda>us.
           await (hasOwnProperty b ''active'')
             (\<lambda>has. resolve (if has then us\<lparr>us_active := jsprop b ''active''\<rparr> else us))))"

definition update :: "env \<Rightarrow> request \<Rightarrow> world \<Rightarrow> response \<times> world" where
  "update e req =
     try_next
       (await (isAdmin (Request req))
          (\<lambda>admin.
             if \<not> admin then resolve (send 403 (Ko ''Unauthorized''))
             else if \<not> validate (body req) updateSchema then resolve (send 400 (Ko ''Bad request''))
             else
               await (query (users_findUnique (params_id req)))
                 (\<lambda>found.
                    case found of
                      None \<Rightarrow> resolve (send 404 (Ko ''User not found''))
                    | Some user \<Rightarrow>
                        await (build_update e (body req)) (\<lambda>us.
                        await (if well_typed us
                               then mutate Prisma
                                      (users_updateUnique (params_id req)
                                         (apply_update us (Instant (clock e))))
                               else reject PrismaValidation) (\<lambda>_.
                        await (actions_log (req_user req) ''update'' ''user''
                                 (Some (params_id req))) (\<lambda>_.
                        resolve (send 200 (Ok NoData))))))))"

subsection \<open>remove\<close>

text \<open>
  The callback handed to \<^verbatim>\<open>prisma.$transaction\<close> receives the transaction client
  \<^verbatim>\<open>tx\<close>, and issues its four deletions on the module's client \<^verbatim>\<open>prisma\<close>
  (lines 363, 369, 374 and 380), as written below.
\<close>

definition remove :: "env \<Rightarrow> request \<Rightarrow> world \<Rightarrow> response \<times> world" where
  "remove e req =
     try_next
       (await (isAdmin (Request req))
          (\<lambda>admin.
             if \<not> admin then resolve (send 403 (Ko ''Unauthorized''))
             else
               await (query (users_findUnique (params_id req)))
                 (\<lambda>found.
                    case found of
                      None \<Rightarrow> resolve (send 404 (Ko ''User not found''))
                    | Some user \<Rightarrow>
                        if params_id req = ''0''
                        then resolve (send 422 (Ko ''Admin user cannot be removed''))
                        else
                          await (query (\<lambda>d. filter (\<lambda>f. f_personal f \<and> f_user f = Some (params_id req))
                                               (folders d)))
                            (\<lambda>personal.
                               let personalId = (case personal of [] \<Rightarrow> [] | f # fs \<Rightarrow> f_id f) in
                               await (transaction
                                        (\<lambda>tx.
                                           await (mutate Prisma (usersGroups_deleteMany (params_id req))) (\<lambda>_.
                                           await (if personalId \<noteq> []
                                                  then await (mutate Prisma (items_deleteMany personalId))
                                                         (\<lambda>_. mutate Prisma (folders_delete personalId))
                                                  else resolve ()) (\<lambda>_.
                                           mutate Prisma (users_delete (params_id req)))))) (\<lambda>_.
                               await (actions_log (req_user req) ''delete'' ''folder''
                                        (Some (params_id req))) (\<lambda>_.
                               resolve (send 200 (Ok (Value (JStr ''Done''))))))))))"

subsection \<open>setPersonalSecret and personalFolderLogin\<close>

definition setPersonalSecret :: "env \<Rightarrow> request \<Rightarrow> world \<Rightarrow> response \<times> world" where
  "setPersonalSecret e req =
     try_next
       (if \<not> validate (body req) updatePersonalPassword
        then resolve (send 400 (Ko ''Bad request''))
        else
          await (string_arg (jsprop (body req) ''personalsecret'')) (\<lambda>secret.
          await (case req_user req of
                   None \<Rightarrow> reject PrismaValidation
                 | Some uid \<Rightarrow>
                     mutate Prisma
                       (users_updateUnique uid
                          (\<lambda>u. u\<lparr>u_personalsecret := Some (hashPassword e secret),
                                  u_updatedat := Instant (clock e)\<rparr>))) (\<lambda>_.
          await (actions_log (req_user req) ''personalpasswordcreate'' ''user'' (req_user req)) (\<lambda>_.
          resolve (send 200 (Ok (Value (JStr ''Done''))))))))"

definition personalFolderLogin :: "env \<Rightarrow> request \<Rightarrow> world \<Rightarrow> response \<times> world" where
  "personalFolderLogin e req =
     try_next
       (if \<not> validate (body req) personalLogin
        then resolve (send 400 (Ko ''Bad request''))
        else
          await (case req_user req of
                   None \<Rightarrow> reject PrismaValidation
                 | Some uid \<Rightarrow> query (users_findUnique uid))
            (\<lambda>found.
               case found of
                 None \<Rightarrow>
                   await (actions_log (as_string (jsprop (body req) ''username''))
                            ''personalloginnotfound'' ''user'' (req_user req)) (\<lambda>_.
                   resolve (send 401 (Ko ''Bad user or wrong password'')))
               | Some user \<Rightarrow>
                   await (string_arg (jsprop (body req) ''password'')) (\<lambda>password.
                   if \<not> checkPassword e password (u_personalsecret user)
                   then
                     await (actions_log None ''personalloginfail'' ''user'' (req_user req)) (\<lambda>_.
                     resolve (send 401 (Ko ''Wrong password'')))
                   else
                     await (createToken e (u_id user) True) (\<lambda>token.
                     await (actions_log (Some (u_id user)) ''personallogin'' ''user''
                              (Some (u_id user))) (\<lambda>_.
                     resolve (send 200 (Ok (JwtData token))))))))"

subsection \<open>Sequences of requests\<close>

datatype operation = Get | Create | Update | Remove | SetPersonalSecret | PersonalFolderLogin

fun serve :: "operation \<Rightarrow> env \<Rightarrow> request \<Rightarrow> world \<Rightarrow> response \<times> world" where
  "serve Get e req w = get req w"
| "serve Create e req w = create e req w"
| "serve Update e req w = update e req w"
| "serve Remove e req w = remove e req w"
| "serve SetPersonalSecret e req w = setPersonalSecret e req w"
| "serve PersonalFolderLogin e req w = personalFolderLogin e req w"

fun serve_all :: "(operation \<times> env \<times> request) list \<Rightarrow> world \<Rightarrow> world" where
  "serve_all [] w = w"
| "serve_all ((opn, e, req) # rest) w = serve_all rest (snd (serve opn e req w))"

section \<open>A small deployment\<close>

text \<open>
  Concrete data on which the theorems below are run: one ordinary user \<open>bob\<close> with a
  personal folder \<open>P1\<close> holding two items and with membership of \<open>Everyone\<close>, and the
  built-in administrator \<open>0\<close>, member of \<open>Admins\<close>.
\<close>

definition demo_config :: config where
  "demo_config =
     \<lparr>master_key = Some ''master'', jwt_key = Some ''key'', jwt_duration = 3600,
      log_dir = ''logs'', listen_port = ''3000'', version = ''1.0''\<rparr>"

definition demo_env :: env where
  "demo_env =
     \<lparr>config_get = demo_config, clock = 100,
      newId = (\<lambda>n. replicate (Suc n) CHR ''n''),
      hashPassword = (\<lambda>s. CHR ''#'' # s),
      checkPassword = (\<lambda>p h. h = Some (CHR ''#'' # p))\<rparr>"

definition demo_user :: "string \<Rightarrow> users_row" where
  "demo_user i =
     \<lparr>u_id = i, u_login = i, u_lastname = ''L'', u_firstname = None,
      u_authmethod = ''local'', u_locale = ''en_US'', u_email = ''a@b'',
      u_secret = ''#s'', u_secretexpiresat = Instant 0,
      u_personalsecret = Some ''#p'', u_active = True,
      u_createdat = Instant 0, u_updatedat = Instant 0\<rparr>"

definition demo_item :: "string \<Rightarrow> items_row" where
  "demo_item i =
     \<lparr>i_id = i, i_folder = ''P1'', i_personal = True, i_title = ''t'', i_data = ''d'',
      i_dataiv = ''iv'', i_dataauthtag = ''tag'', i_metadata = None,
      i_createdat = Instant 0, i_updatedat = Instant 0, i_accessedat = None\<rparr>"

definition demo_membership :: "string \<Rightarrow> string \<Rightarrow> string \<Rightarrow> usersgroups_row" where
  "demo_membership i u g =
     \<lparr>ug_id = i, ug_user = u, ug_group = g, ug_createdat = Instant 0,
      ug_updatedat = Instant 0\<rparr>"

definition demo_folder :: folders_row where
  "demo_folder =
     \<lparr>f_id = ''P1'', f_parent = Some ''P'', f_description = ''bob'', f_personal = True,
      f_user = Some ''bob'', f_createdat = Instant 0, f_updatedat = Instant 0\<rparr>"

definition demo_db :: db where
  "demo_db =
     \<lparr>users = [demo_user ''0'', demo_user ''bob''],
      folders = [demo_folder],
      items = [demo_item ''i1'', demo_item ''i2''],
      usersGroups = [demo_membership ''m0'' ''0'' ''A'', demo_membership ''m1'' ''bob'' ''E'']\<rparr>"

definition demo_world :: "bool list \<Rightarrow> world" where
  "demo_world fs = \<lparr>db = demo_db, pending = [], faults = fs, audit = [], ids = 0\<rparr>"

text \<open>A request that has passed \<open>validateJWT\<close> with a token of user \<open>u\<close>.\<close>

definition demo_request :: "string \<Rightarrow> bool \<Rightarrow> string \<Rightarrow> jsval \<Rightarrow> request" where
  "demo_request u admin i b =
     \<lparr>authorization = None, params_id = i, body = b,
      req_jwt = Some \<lparr>jwt_user = u, jwt_admin = admin, jwt_personalfolder = False,
                      jwt_iat = 0, jwt_nbf = None, jwt_exp = Some 3600\<rparr>,
      req_user = Some u, req_personalfolder = Some False\<rparr>"

text \<open>A request as it arrives, with an Authorization header carrying \<open>t\<close>.\<close>

definition bearer_request :: "jwt \<Rightarrow> request" where
  "bearer_request t =
     \<lparr>authorization = Some [Text ''Bearer'', Compact t], params_id = [], body = JObj [],
      req_jwt = None, req_user = None, req_personalfolder = None\<rparr>"

definition demo_token :: "string \<Rightarrow> string \<Rightarrow> bool \<Rightarrow> jwt" where
  "demo_token k u admin =
     \<lparr>jwt_alg = HS512,
      jwt_claims = \<lparr>jwt_user = u, jwt_admin = admin, jwt_personalfolder = False,
                     jwt_iat = 100, jwt_nbf = None, jwt_exp = Some 3700\<rparr>,
      jwt_signature = HMAC HS512 k
                     \<lparr>jwt_user = u, jwt_admin = admin, jwt_personalfolder = False,
                      jwt_iat = 100, jwt_nbf = None, jwt_exp = Some 3700\<rparr>\<rparr>"

text \<open>The same world with \<open>bob\<close>'s personal secret replaced by another one.\<close>

definition demo_resecret :: "bool list \<Rightarrow> world" where
  "demo_resecret fs =
     (demo_world fs)\<lparr>db := demo_db\<lparr>users :=
        [demo_user ''0'', (demo_user ''bob'')\<lparr>u_personalsecret := Some ''#other''\<rparr>]\<rparr>\<rparr>"

text \<open>Requests of \<open>bob\<close> to unlock his personal folder, and of the administrator to
  create a user, to change \<open>bob\<close> and to remove a user.\<close>

definition demo_login :: "string \<Rightarrow> request" where
  "demo_login pw = demo_request ''bob'' False [] (JObj [(''password'', JStr pw)])"

definition demo_create :: request where
  "demo_create =
     demo_request ''0'' True []
       (JObj [(''login'', JStr ''al''), (''firstname'', JStr ''A''), (''lastname'', JStr ''L''),
              (''email'', JStr ''a@l''), (''secret'', JStr ''s'')])"

definition demo_update :: "(string \<times> jsval) list \<Rightarrow> request" where
  "demo_update kvs = demo_request ''0'' True ''bob'' (JObj kvs)"

definition demo_remove :: "string \<Rightarrow> request" where
  "demo_remove i = demo_request ''0'' True i JNull"

section \<open>Notions used in the proofs\<close>

text \<open>\<open>kept v\<close> is what \<^verbatim>\<open>if (v) struct.k = v\<close> leaves in field \<open>k\<close> of a struct that had
  no such field; \<open>built e b\<close> is the struct that \<open>build_update\<close> makes of a body that
  passes the schema.\<close>

definition kept :: "jsval option \<Rightarrow> jsval option" where
  "kept v = (if truthy v then v else None)"

definition built :: "env \<Rightarrow> jsval \<Rightarrow> updateStruct" where
  "built e b =
     \<lparr>us_login = kept (jsprop b ''login''),
      us_firstname = kept (jsprop b ''firstname''),
      us_lastname = kept (jsprop b ''lastname''),
      us_authmethod = kept (jsprop b ''authmethod''),
      us_locale = kept (jsprop b ''locale''),
      us_email = kept (jsprop b ''email''),
      us_secret = map_option (hashPassword e) (as_string (kept (jsprop b ''secret''))),
      us_secretexpiresat =
        map_option (\<lambda>s. Date 2050 12 31 23 59 59) (as_string (kept (jsprop b ''secret''))),
      us_active = jsprop b ''active''\<rparr>"

text \<open>The built-in administrator, user id \<open>0\<close>, has a row.\<close>

definition admin_exists :: "db \<Rightarrow> bool" where
  "admin_exists d = list_ex (\<lambda>u. u_id u = ''0'') (users d)"

text \<open>The invariant carried through a handler; inside a transaction callback
  (\<open>strict\<close>) it also records that no write has been collected on the transaction
  client.\<close>

definition intact :: "bool \<Rightarrow> world \<Rightarrow> bool" where
  "intact strict w = (admin_exists (db w) \<and> (strict \<longrightarrow> pending w = []))"

definition keeps :: "(world \<Rightarrow> bool) \<Rightarrow> 'a io \<Rightarrow> bool" where
  "keeps P m = (\<forall>w. P w \<longrightarrow> P (snd (m w)))"

definition safe :: "mutation \<Rightarrow> bool" where
  "safe m = (\<forall>d d'. admin_exists d \<and> m d = Inr d' \<longrightarrow> admin_exists d')"

section \<open>Start-up theorems\<close>

text \<open>
  C8. If the master encryption key or the token-signing key is absent from the
  configuration (missing, or empty, which JavaScript treats alike), start-up ends in
  \<^verbatim>\<open>process.exit\<close> with a nonzero code and no route has been installed and the server
  never listens; if both keys are present, start-up installs the routes and ends by
  listening, without exiting.
\<close>

theorem main_keys_fatal:
  "(if truthy_key (master_key cfg) \<and> truthy_key (jwt_key cfg)
    then last (main cfg d) = Listen (listen_port cfg)
       \<and> list_ex is_route (main cfg d)
       \<and> \<not> list_ex is_exit (main cfg d)
    else is_exit (last (main cfg d))
       \<and> 0 < exit_code (last (main cfg d))
       \<and> \<not> list_ex is_route (main cfg d)
       \<and> \<not> list_ex is_listen (main cfg d))"
  by (simp add: main_def)

theorem main_keys_fatal_witness:
  "last (main demo_config True) = Listen ''3000''
   \<and> list_ex is_route (main demo_config True)
   \<and> last (main (demo_config\<lparr>master_key := None\<rparr>) True) = Exit 1
   \<and> last (main (demo_config\<lparr>jwt_key := Some []\<rparr>) False) = Exit 2
   \<and> \<not> list_ex is_route (main (demo_config\<lparr>jwt_key := Some []\<rparr>) False)"
  using main_keys_fatal [of demo_config True]
    main_keys_fatal [of "demo_config\<lparr>master_key := None\<rparr>" True]
    main_keys_fatal [of "demo_config\<lparr>jwt_key := Some []\<rparr>" False]
  by (simp add: main_def demo_config_def truthy_key_def)

section \<open>Awaiting, step by step\<close>

lemma await_resolve [simp]: "await (resolve a) f = f a"
  by (rule ext) (simp add: await_def resolve_def)

lemma await_reject [simp]: "await (reject e) f = reject e"
  by (rule ext) (simp add: await_def reject_def)

lemma isAdmin_request:
  "isAdmin (Request r) w =
     (case req_jwt r of None \<Rightarrow> (Inl TypeError, w) | Some j \<Rightarrow> (Inr (jwt_admin j), w))"
  by (simp add: isAdmin_def reject_def resolve_def split: option.splits)

lemma await_assoc: "await (await m f) g = await m (\<lambda>x. await (f x) g)"
  by (rule ext) (simp add: await_def split: prod.splits sum.splits)

lemma await_query:
  "await (query f) g w =
     (if rejected w then (Inl StoreFault, w\<lparr>faults := tl (faults w)\<rparr>)
      else g (f (db w)) (w\<lparr>faults := tl (faults w)\<rparr>))"
  by (simp add: await_def query_def Let_def)

lemma await_mutate_prisma:
  "await (mutate Prisma m) g w =
     (if rejected w then (Inl StoreFault, w\<lparr>faults := tl (faults w)\<rparr>)
      else case m (db w) of
             Inl err \<Rightarrow> (Inl err, w\<lparr>faults := tl (faults w)\<rparr>)
           | Inr d \<Rightarrow> g () (w\<lparr>faults := tl (faults w), db := d\<rparr>))"
  by (simp add: await_def mutate_def Let_def split: sum.splits)

lemma await_actions_log:
  "await (actions_log u a t i) g w =
     g () (w\<lparr>audit := audit w @
                [\<lparr>al_user = u, al_action = a, al_itemtype = t, al_itemid = i\<rparr>]\<rparr>)"
  by (simp add: await_def actions_log_def)

lemma await_draw_id:
  "await (draw_id e) g w = g (newId e (ids w)) (w\<lparr>ids := Suc (ids w)\<rparr>)"
  by (simp add: await_def draw_id_def)

lemma await_string_arg:
  "await (string_arg v) g =
     (case as_string v of None \<Rightarrow> reject PrismaValidation | Some s \<Rightarrow> g s)"
  by (simp add: string_arg_def as_string_def split: option.splits jsval.splits)

lemma await_isAdmin_request:
  "await (isAdmin (Request r)) f w =
     (case req_jwt r of None \<Rightarrow> (Inl TypeError, w) | Some j \<Rightarrow> f (jwt_admin j) w)"
  by (simp add: await_def isAdmin_request split: option.splits)

lemma await_Pair_Inr: "await (Pair (Inr a)) f = f a"
  by (rule ext) (simp add: await_def)

lemma await_Pair_Inl: "await (Pair (Inl err)) f = Pair (Inl err)"
  by (rule ext) (simp add: await_def)

lemma await_transaction:
  "await (transaction callback) g w =
     (case transaction callback w of
        (Inl err, w') \<Rightarrow> (Inl err, w')
      | (Inr a, w') \<Rightarrow> g a w')"
  by (simp add: await_def)

section \<open>Token theorems\<close>

lemma createToken_issued:
  assumes "createToken e U p w = (Inr t, w')"
  shows "jwt_claims t =
           \<lparr>jwt_user = U,
            jwt_admin = list_ex (\<lambda>g. ug_group g = ''A'' \<and> ug_user g = U) (usersGroups (db w)),
            jwt_personalfolder = p, jwt_iat = clock e, jwt_nbf = None,
            jwt_exp = Some (clock e + jwt_duration (config_get e))\<rparr>
       \<and> jwt_alg t = HS512
       \<and> (\<exists>k. jwt_key (config_get e) = Some k \<and> k \<noteq> []
              \<and> jwt_signature t = HMAC HS512 k (jwt_claims t))"
  using assms
  by (auto simp add: createToken_def isAdmin_def await_def query_def jsonwebtoken_sign_def
      resolve_def reject_def Let_def list_ex_iff filter_empty_conv
      split: option.splits if_splits)

lemma validateJWT_compact:
  assumes "authorization req = Some (scheme # Compact t # rest)"
  shows "validateJWT e req =
     (case jsonwebtoken_verify (Some (Compact t)) (jwt_key (config_get e)) (clock e) of
        Inr decoded \<Rightarrow>
          Inr (req\<lparr>req_jwt := Some decoded, req_user := Some (jwt_user decoded),
                   req_personalfolder := Some (jwt_personalfolder decoded)\<rparr>)
      | Inl err \<Rightarrow>
          Inl (send 401 (Ko (if err = TokenExpiredError then ''Token expired''
                             else ''Invalid token''))))"
  using assms by (simp add: validateJWT_def second_def)

lemma verify_issued:
  assumes "createToken e U p w = (Inr t, w')" and "config_get e' = config_get e"
  shows "jsonwebtoken_verify (Some (Compact t)) (jwt_key (config_get e')) (clock e') =
     (if clock e + jwt_duration (config_get e) \<le> clock e' then Inl TokenExpiredError
      else Inr (jwt_claims t))"
  using createToken_issued [OF assms(1)] assms(2)
  by (auto simp add: jsonwebtoken_verify_def)

lemma verify_forged:
  assumes "jwt_key c = Some k"
      and "jwt_signature t \<noteq> HMAC (jwt_alg t) k (jwt_claims t)"
  shows "\<exists>m. jsonwebtoken_verify (Some (Compact t)) (jwt_key c) now = Inl (JsonWebTokenError m)"
  using assms by (simp add: jsonwebtoken_verify_def)

text \<open>
  When the store answers the membership lookup and the signing key is configured,
  \<open>createToken\<close> does issue a token, and this is the token.
\<close>

lemma createToken_issues:
  assumes "\<not> rejected w" and "jwt_key (config_get e) = Some k" and "k \<noteq> []"
  shows "createToken e U p w =
     (Inr \<lparr>jwt_alg = HS512,
           jwt_claims =
             \<lparr>jwt_user = U,
              jwt_admin = list_ex (\<lambda>g. ug_group g = ''A'' \<and> ug_user g = U) (usersGroups (db w)),
              jwt_personalfolder = p, jwt_iat = clock e, jwt_nbf = None,
              jwt_exp = Some (clock e + jwt_duration (config_get e))\<rparr>,
           jwt_signature = HMAC HS512 k
             \<lparr>jwt_user = U,
              jwt_admin = list_ex (\<lambda>g. ug_group g = ''A'' \<and> ug_user g = U) (usersGroups (db w)),
              jwt_personalfolder = p, jwt_iat = clock e, jwt_nbf = None,
              jwt_exp = Some (clock e + jwt_duration (config_get e))\<rparr>\<rparr>,
      w\<lparr>faults := tl (faults w)\<rparr>)"
proof -
  have "createToken e U p w =
      resolve
        \<lparr>jwt_alg = HS512,
         jwt_claims =
           \<lparr>jwt_user = U,
            jwt_admin = (0 < length (filter (\<lambda>g. ug_group g = ''A'' \<and> ug_user g = U)
                                      (usersGroups (db w)))),
            jwt_personalfolder = p, jwt_iat = clock e, jwt_nbf = None,
            jwt_exp = Some (clock e + jwt_duration (config_get e))\<rparr>,
         jwt_signature = HMAC HS512 k
           \<lparr>jwt_user = U,
            jwt_admin = (0 < length (filter (\<lambda>g. ug_group g = ''A'' \<and> ug_user g = U)
                                      (usersGroups (db w)))),
            jwt_personalfolder = p, jwt_iat = clock e, jwt_nbf = None,
            jwt_exp = Some (clock e + jwt_duration (config_get e))\<rparr>\<rparr>
        (w\<lparr>faults := tl (faults w)\<rparr>)"
    using assms
    by (simp add: createToken_def isAdmin_def await_assoc await_query jsonwebtoken_sign_def
        Let_def)
  then show ?thesis
    by (simp add: resolve_def list_ex_iff filter_empty_conv)
qed

lemma demo_issue_bob:
  "createToken demo_env ''bob'' False (demo_world []) =
     (Inr (demo_token ''key'' ''bob'' False), demo_world [])"
  by (simp add: createToken_def isAdmin_def await_def query_def rejected_def resolve_def
      jsonwebtoken_sign_def demo_env_def demo_config_def demo_world_def demo_db_def
      demo_membership_def demo_token_def Let_def)

lemma demo_issue_admin:
  "createToken demo_env ''0'' False (demo_world []) =
     (Inr (demo_token ''key'' ''0'' True), demo_world [])"
  by (simp add: createToken_def isAdmin_def await_def query_def rejected_def resolve_def
      jsonwebtoken_sign_def demo_env_def demo_config_def demo_world_def demo_db_def
      demo_membership_def demo_token_def Let_def)

text \<open>
  C2. When the store answers and the signing key is configured, \<open>createToken U p\<close>
  issues a token \<open>t\<close>. Presented in the Authorization header to a server with the
  same configuration, \<open>t\<close> is accepted before its expiry, and the request then carries
  the user id \<open>U\<close> and the personal-folder flag \<open>p\<close>; from the second of expiry on
  (issue time plus the configured duration) the answer is 401 "Token expired"; and
  any token whose signature is not the one the server's key gives for its header
  and claims is answered 401 "Invalid token".
\<close>

theorem token_roundtrip:
  assumes calm: "\<not> rejected w"
      and key: "jwt_key (config_get e) = Some k" "k \<noteq> []"
  shows "\<exists>t w'. createToken e U p w = (Inr t, w')
       \<and> (\<forall>e' req scheme rest.
            config_get e' = config_get e
            \<and> authorization req = Some (scheme # Compact t # rest) \<longrightarrow>
              (clock e' < clock e + jwt_duration (config_get e) \<longrightarrow>
                 (\<exists>req'. validateJWT e' req = Inr req' \<and> req_user req' = Some U
                         \<and> req_personalfolder req' = Some p))
            \<and> (clock e + jwt_duration (config_get e) \<le> clock e' \<longrightarrow>
                 validateJWT e' req = Inl (send 401 (Ko ''Token expired''))))
       \<and> (\<forall>e' req2 scheme2 t2 rest2.
            config_get e' = config_get e
            \<and> authorization req2 = Some (scheme2 # Compact t2 # rest2)
            \<and> jwt_signature t2 \<noteq> HMAC (jwt_alg t2) k (jwt_claims t2) \<longrightarrow>
            validateJWT e' req2 = Inl (send 401 (Ko ''Invalid token'')))"
proof -
  from createToken_issues [OF calm key, of U p] obtain t w'
    where issued: "createToken e U p w = (Inr t, w')"
    by blast
  have roundtrip: "(clock e' < clock e + jwt_duration (config_get e) \<longrightarrow>
                 (\<exists>req'. validateJWT e' req = Inr req' \<and> req_user req' = Some U
                         \<and> req_personalfolder req' = Some p))
            \<and> (clock e + jwt_duration (config_get e) \<le> clock e' \<longrightarrow>
                 validateJWT e' req = Inl (send 401 (Ko ''Token expired'')))"
    if same: "config_get e' = config_get e"
      and header: "authorization req = Some (scheme # Compact t # rest)"
    for e' and req :: request and scheme rest
    using verify_issued [OF issued same] createToken_issued [OF issued]
    by (simp add: validateJWT_compact [OF header])
  have forged: "validateJWT e' req2 = Inl (send 401 (Ko ''Invalid token''))"
    if same: "config_get e' = config_get e"
      and header: "authorization req2 = Some (scheme2 # Compact t2 # rest2)"
      and other: "jwt_signature t2 \<noteq> HMAC (jwt_alg t2) k (jwt_claims t2)"
    for e' and req2 :: request and scheme2 t2 rest2
  proof -
    from key same have "jwt_key (config_get e') = Some k" by simp
    from verify_forged [OF this other] obtain m where
      "jsonwebtoken_verify (Some (Compact t2)) (jwt_key (config_get e')) (clock e')
         = Inl (JsonWebTokenError m)"
      by blast
    then show ?thesis
      by (simp add: validateJWT_compact [OF header])
  qed
  from issued roundtrip forged show ?thesis
    by blast
qed

text \<open>The token that \<open>createToken\<close> issues to \<open>bob\<close> at second 100, for one hour: accepted
  at second 3699, expired at second 3700; and a token signed with another key.\<close>

theorem token_roundtrip_witness:
  "\<exists>t w'. createToken demo_env ''bob'' False (demo_world []) = (Inr t, w')
     \<and> jwt_user (jwt_claims t) = ''bob''
     \<and> (\<exists>req'. validateJWT (demo_env\<lparr>clock := 3699\<rparr>) (bearer_request t) = Inr req'
            \<and> req_user req' = Some ''bob'' \<and> req_personalfolder req' = Some False)
     \<and> validateJWT (demo_env\<lparr>clock := 3700\<rparr>) (bearer_request t)
         = Inl (send 401 (Ko ''Token expired''))
     \<and> validateJWT (demo_env\<lparr>clock := 3699\<rparr>) (bearer_request (demo_token ''other'' ''bob'' True))
         = Inl (send 401 (Ko ''Invalid token''))"
proof -
  have calm: "\<not> rejected (demo_world [])"
    by (simp add: rejected_def demo_world_def)
  have key: "jwt_key (config_get demo_env) = Some ''key''" "''key'' \<noteq> []"
    by (simp_all add: demo_env_def demo_config_def)
  from token_roundtrip [OF calm key, of "''bob''" False] obtain t w'
    where issued: "createToken demo_env ''bob'' False (demo_world []) = (Inr t, w')"
      and mine: "\<And>e' req scheme rest.
            config_get e' = config_get demo_env
            \<and> authorization req = Some (scheme # Compact t # rest) \<Longrightarrow>
              (clock e' < clock demo_env + jwt_duration (config_get demo_env) \<longrightarrow>
                 (\<exists>req'. validateJWT e' req = Inr req' \<and> req_user req' = Some ''bob''
                         \<and> req_personalfolder req' = Some False))
            \<and> (clock demo_env + jwt_duration (config_get demo_env) \<le> clock e' \<longrightarrow>
                 validateJWT e' req = Inl (send 401 (Ko ''Token expired'')))"
      and others: "\<And>e' req2 scheme2 t2 rest2.
            config_get e' = config_get demo_env
            \<and> authorization req2 = Some (scheme2 # Compact t2 # rest2)
            \<and> jwt_signature t2 \<noteq> HMAC (jwt_alg t2) ''key'' (jwt_claims t2) \<Longrightarrow>
            validateJWT e' req2 = Inl (send 401 (Ko ''Invalid token''))"
    by blast
  have who: "jwt_user (jwt_claims t) = ''bob''"
    using issued demo_issue_bob by (auto simp add: demo_token_def)
  have times: "clock demo_env + jwt_duration (config_get demo_env) = 3700"
    by (simp add: demo_env_def demo_config_def)
  have early: "\<exists>req'. validateJWT (demo_env\<lparr>clock := 3699\<rparr>) (bearer_request t) = Inr req'
            \<and> req_user req' = Some ''bob'' \<and> req_personalfolder req' = Some False"
    using mine [of "demo_env\<lparr>clock := 3699\<rparr>" "bearer_request t" "Text ''Bearer''" "[]"] times
    by (simp add: bearer_request_def)
  have late: "validateJWT (demo_env\<lparr>clock := 3700\<rparr>) (bearer_request t)
         = Inl (send 401 (Ko ''Token expired''))"
    using mine [of "demo_env\<lparr>clock := 3700\<rparr>" "bearer_request t" "Text ''Bearer''" "[]"] times
    by (simp add: bearer_request_def)
  have forged: "validateJWT (demo_env\<lparr>clock := 3699\<rparr>)
        (bearer_request (demo_token ''other'' ''bob'' True))
         = Inl (send 401 (Ko ''Invalid token''))"
    by (rule others [of _ _ "Text ''Bearer''" "demo_token ''other'' ''bob'' True" "[]"])
      (simp add: bearer_request_def demo_token_def)
  from issued who early late forged show ?thesis
    by blast
qed

text \<open>
  C3. When the store answers and the signing key is configured, \<open>createToken U p\<close>
  issues a token whose admin flag is \<open>U\<close>'s membership of the group \<open>A\<close> (Admins) in
  the store at that moment; and on every request that passed \<open>validateJWT\<close> with
  that token, \<open>isAdmin\<close> answers that flag in every world \<open>w2\<close>, whatever its tables
  hold then, and leaves the world as it was (no store call is made).
\<close>

theorem admin_flag_snapshot:
  assumes calm: "\<not> rejected w"
      and key: "jwt_key (config_get e) = Some k" "k \<noteq> []"
  shows "\<exists>t w'. createToken e U p w = (Inr t, w')
       \<and> jwt_admin (jwt_claims t) =
           list_ex (\<lambda>g. ug_group g = ''A'' \<and> ug_user g = U) (usersGroups (db w))
       \<and> (\<forall>e' req scheme rest req' w2.
            authorization req = Some (scheme # Compact t # rest)
            \<and> validateJWT e' req = Inr req' \<longrightarrow>
            isAdmin (Request req') w2 =
              (Inr (list_ex (\<lambda>g. ug_group g = ''A'' \<and> ug_user g = U) (usersGroups (db w))),
               w2))"
proof -
  from createToken_issues [OF calm key, of U p] obtain t w'
    where issued: "createToken e U p w = (Inr t, w')"
    by blast
  note facts = createToken_issued [OF issued]
  have later: "isAdmin (Request req') w2 =
              (Inr (list_ex (\<lambda>g. ug_group g = ''A'' \<and> ug_user g = U) (usersGroups (db w))),
               w2)"
    if header: "authorization req = Some (scheme # Compact t # rest)"
      and valid: "validateJWT e' req = Inr req'"
    for e' and req :: request and scheme rest req' w2
  proof -
    have "req_jwt req' = Some (jwt_claims t)"
      using valid
      by (auto simp add: validateJWT_compact [OF header] jsonwebtoken_verify_def
          split: sum.splits option.splits if_splits)
    with facts show ?thesis
      by (simp add: isAdmin_request)
  qed
  from facts have flag: "jwt_admin (jwt_claims t) =
      list_ex (\<lambda>g. ug_group g = ''A'' \<and> ug_user g = U) (usersGroups (db w))"
    by simp
  from later have always: "\<forall>e' req scheme rest req' w2.
            authorization req = Some (scheme # Compact t # rest)
            \<and> validateJWT e' req = Inr req' \<longrightarrow>
            isAdmin (Request req') w2 =
              (Inr (list_ex (\<lambda>g. ug_group g = ''A'' \<and> ug_user g = U) (usersGroups (db w))),
               w2)"
    by blast
  from issued flag always show ?thesis
    by (intro exI [of _ t] exI [of _ w'] conjI)
qed

text \<open>The token issued to the administrator carries the flag, the one issued to \<open>bob\<close>
  does not; the administrator's token still passes the admin check after every
  membership has been revoked, and the check consumes no store call.\<close>

theorem admin_flag_snapshot_witness:
  "\<exists>t w' tb wb'.
      createToken demo_env ''0'' False (demo_world []) = (Inr t, w')
    \<and> jwt_admin (jwt_claims t)
    \<and> createToken demo_env ''bob'' False (demo_world []) = (Inr tb, wb')
    \<and> \<not> jwt_admin (jwt_claims tb)
    \<and> (\<exists>req'. validateJWT demo_env (bearer_request t) = Inr req'
         \<and> isAdmin (Request req') ((demo_world [True])\<lparr>db := demo_db\<lparr>usersGroups := []\<rparr>\<rparr>)
             = (Inr True, (demo_world [True])\<lparr>db := demo_db\<lparr>usersGroups := []\<rparr>\<rparr>))"
proof -
  have calm: "\<not> rejected (demo_world [])"
    by (simp add: rejected_def demo_world_def)
  have key: "jwt_key (config_get demo_env) = Some ''key''" "''key'' \<noteq> []"
    by (simp_all add: demo_env_def demo_config_def)
  have member: "list_ex (\<lambda>g. ug_group g = ''A'' \<and> ug_user g = ''0'')
      (usersGroups (db (demo_world [])))"
    and stranger: "\<not> list_ex (\<lambda>g. ug_group g = ''A'' \<and> ug_user g = ''bob'')
      (usersGroups (db (demo_world [])))"
    by (simp_all add: demo_world_def demo_db_def demo_membership_def)
  from admin_flag_snapshot [OF calm key, of "''0''" False] member obtain t w'
    where issued: "createToken demo_env ''0'' False (demo_world []) = (Inr t, w')"
      and flag: "jwt_admin (jwt_claims t)"
      and later: "\<And>e' req scheme rest req' w2.
            authorization req = Some (scheme # Compact t # rest)
            \<and> validateJWT e' req = Inr req' \<Longrightarrow>
            isAdmin (Request req') w2 = (Inr True, w2)"
    by auto
  from admin_flag_snapshot [OF calm key, of "''bob''" False] stranger obtain tb wb'
    where issued_bob: "createToken demo_env ''bob'' False (demo_world []) = (Inr tb, wb')"
      and flag_bob: "\<not> jwt_admin (jwt_claims tb)"
    by auto
  have "t = demo_token ''key'' ''0'' True"
    using issued demo_issue_admin by simp
  then obtain req' where valid: "validateJWT demo_env (bearer_request t) = Inr req'"
    by (simp add: validateJWT_def bearer_request_def second_def jsonwebtoken_verify_def
        demo_env_def demo_config_def demo_token_def)
  have header: "authorization (bearer_request t) = Some (Text ''Bearer'' # Compact t # [])"
    by (simp add: bearer_request_def)
  from later [of "bearer_request t" "Text ''Bearer''" "[]" demo_env req'] header valid
  have "isAdmin (Request req') ((demo_world [True])\<lparr>db := demo_db\<lparr>usersGroups := []\<rparr>\<rparr>)
             = (Inr True, (demo_world [True])\<lparr>db := demo_db\<lparr>usersGroups := []\<rparr>\<rparr>)"
    by simp
  with issued flag issued_bob flag_bob valid show ?thesis
    by blast
qed

section \<open>Theorems on get and personalFolderLogin\<close>

lemma find_user_map:
  assumes "\<And>u. u_id (g u) = u_id u"
  shows "find (\<lambda>u. u_id u = i) (map g xs) = map_option g (find (\<lambda>u. u_id u = i) xs)"
  by (induction xs) (simp_all add: assms)

lemma get_response:
  "fst (get req w) =
     (if rejected w then send 500 (Ko ''Internal error'')
      else case users_findUnique (params_id req) (db w) of
        None \<Rightarrow> send 404 (Ko ''User not found'')
      | Some u \<Rightarrow>
          send 200 (Ok (Value (JObj
            [(''id'', JStr (u_id u)),
             (''login'', JStr (u_login u)),
             (''firstname'', (case u_firstname u of None \<Rightarrow> JNull | Some s \<Rightarrow> JStr s)),
             (''lastname'', JStr (u_lastname u)),
             (''authmethod'', JStr (u_authmethod u)),
             (''locale'', JStr (u_locale u)),
             (''email'', JStr (u_email u)),
             (''active'', JBool (u_active u)),
             (''createdat'', JDate (u_createdat u)),
             (''updatedat'', JDate (u_updatedat u)),
             (''haspersonalsecret'', JBool (u_personalsecret u \<noteq> None))]))))"
  by (simp add: get_def try_next_def await_query selected_def resolve_def Let_def
      split: option.splits)

text \<open>
  C9. \<open>get\<close> does not give out the stored personal-secret hash. Two worlds whose user
  tables differ only in the values of personal secrets that are set (\<open>h\<close> replaces each
  set secret by another one, an unset secret stays unset) and whose store calls fare
  alike get the same response to every request; and a user object that \<open>get\<close> returns
  has no \<open>personalsecret\<close> property, only the boolean \<open>haspersonalsecret\<close>, which says
  whether the field is set.
\<close>

theorem get_hides_personalsecret:
  assumes differ: "users (db w2) =
            map (\<lambda>u. u\<lparr>u_personalsecret := map_option (h u) (u_personalsecret u)\<rparr>)
              (users (db w1))"
      and same: "faults w2 = faults w1"
  shows "fst (get req w1) = fst (get req w2)
       \<and> (\<forall>kvs. reply (fst (get req w1)) = Ok (Value (JObj kvs)) \<longrightarrow>
            map_of kvs ''personalsecret'' = None
            \<and> map_of kvs ''haspersonalsecret'' =
                Some (JBool (\<exists>u. users_findUnique (params_id req) (db w1) = Some u
                                 \<and> u_personalsecret u \<noteq> None)))"
proof -
  have found: "users_findUnique (params_id req) (db w2) =
      map_option (\<lambda>u. u\<lparr>u_personalsecret := map_option (h u) (u_personalsecret u)\<rparr>)
        (users_findUnique (params_id req) (db w1))"
    unfolding users_findUnique_def differ by (rule find_user_map) simp
  have rej: "rejected w2 = rejected w1"
    by (simp add: rejected_def same)
  have eq: "fst (get req w1) = fst (get req w2)"
    by (simp add: get_response found rej split: option.splits)
  have shape: "\<forall>kvs. reply (fst (get req w1)) = Ok (Value (JObj kvs)) \<longrightarrow>
            map_of kvs ''personalsecret'' = None
            \<and> map_of kvs ''haspersonalsecret'' =
                Some (JBool (\<exists>u. users_findUnique (params_id req) (db w1) = Some u
                                 \<and> u_personalsecret u \<noteq> None))"
    by (auto simp add: get_response send_def split: option.splits)
  from eq shape show ?thesis by blast
qed

theorem get_hides_personalsecret_witness:
  "fst (get (demo_request ''0'' True ''bob'' JNull) (demo_world [])) =
     fst (get (demo_request ''0'' True ''bob'' JNull) (demo_resecret []))
   \<and> status (fst (get (demo_request ''0'' True ''bob'' JNull) (demo_world []))) = 200
   \<and> map u_personalsecret (users (db (demo_world []))) = [Some ''#p'', Some ''#p'']
   \<and> map u_personalsecret (users (db (demo_resecret []))) = [Some ''#p'', Some ''#other'']"
proof -
  have differ: "users (db (demo_resecret [])) =
      map (\<lambda>u. u\<lparr>u_personalsecret :=
                   map_option ((\<lambda>u s. if u_id u = ''bob'' then ''#other'' else s) u)
                     (u_personalsecret u)\<rparr>)
        (users (db (demo_world [])))"
    by (simp add: demo_resecret_def demo_world_def demo_db_def demo_user_def)
  have same: "faults (demo_resecret []) = faults (demo_world [])"
    by (simp add: demo_resecret_def demo_world_def)
  show ?thesis
    using get_hides_personalsecret [OF differ same, of "demo_request ''0'' True ''bob'' JNull"]
    by (simp add: get_response rejected_def users_findUnique_def demo_request_def
        demo_resecret_def demo_world_def demo_db_def demo_user_def send_def)
qed

lemma validate_personalLogin:
  assumes "validate b personalLogin"
  shows "\<exists>pw. jsprop b ''password'' = Some (JStr pw)"
proof (cases b)
  case (JObj kvs)
  with assms obtain v where v: "map_of kvs ''password'' = Some v" and t: "has_type TString v"
    by (auto simp add: personalLogin_def)
  from t obtain pw where "v = JStr pw" by (cases v) simp_all
  with v JObj show ?thesis by simp
qed (use assms in simp_all)

text \<open>
  C4. For a request of an authenticated user \<open>uid\<close> whose body passes the schema, with
  the store answering and the signing key configured: \<open>personalFolderLogin\<close> answers
  200 exactly when the user's row is found and \<open>checkPassword\<close> accepts the supplied
  password against the row's stored personal secret. On success the reply carries a
  token issued at this moment, signed with the server's key, for that user, with the
  personal-folder flag set; otherwise the answer is 401 with a message and no token.
\<close>

theorem personalFolderLogin_iff:
  assumes valid: "validate (body req) personalLogin"
      and user: "req_user req = Some uid"
      and calm: "faults w = []"
      and key: "jwt_key (config_get e) = Some k" "k \<noteq> []"
  shows "\<exists>pw. jsprop (body req) ''password'' = Some (JStr pw) \<and>
     (let res = fst (personalFolderLogin e req w);
          matches = (case users_findUnique uid (db w) of
                       None \<Rightarrow> False
                     | Some u \<Rightarrow> checkPassword e pw (u_personalsecret u))
      in (status res = 200) = matches
       \<and> (if matches
          then \<exists>t. reply res = Ok (JwtData t)
                 \<and> jwt_personalfolder (jwt_claims t)
                 \<and> jwt_user (jwt_claims t) = uid
                 \<and> jwt_iat (jwt_claims t) = clock e
                 \<and> jwt_signature t = HMAC HS512 k (jwt_claims t)
          else status res = 401 \<and> (\<exists>m. reply res = Ko m)))"
proof -
  from validate_personalLogin [OF valid] obtain pw
    where pw: "jsprop (body req) ''password'' = Some (JStr pw)" ..
  have nofault: "\<not> rejected w" "w\<lparr>faults := []\<rparr> = w"
    using calm by (simp_all add: rejected_def)
  have idfound: "\<And>u. users_findUnique uid (db w) = Some u \<Longrightarrow> u_id u = uid"
    by (auto simp add: users_findUnique_def find_Some_iff)
  show ?thesis
    apply (rule exI [of _ pw])
    apply (simp add: pw)
    apply (cases "users_findUnique uid (db w)")
     apply (simp add: personalFolderLogin_def try_next_def valid user await_query nofault calm
        await_actions_log)
     apply (simp add: resolve_def send_def)
    apply (frule idfound)
    apply (simp add: personalFolderLogin_def try_next_def valid user await_query nofault calm pw
        string_arg_def createToken_def isAdmin_def jsonwebtoken_sign_def key Let_def
        await_assoc await_actions_log)
    apply (simp add: resolve_def send_def)
    done
qed

theorem personalFolderLogin_iff_witness:
  "status (fst (personalFolderLogin demo_env (demo_login ''p'') (demo_world []))) = 200
   \<and> (\<exists>t. reply (fst (personalFolderLogin demo_env (demo_login ''p'') (demo_world [])))
            = Ok (JwtData t) \<and> jwt_personalfolder (jwt_claims t))
   \<and> fst (personalFolderLogin demo_env (demo_login ''q'') (demo_world []))
       = send 401 (Ko ''Wrong password'')"
proof -
  have valid: "validate (body (demo_login pw)) personalLogin" for pw
    by (simp add: demo_login_def demo_request_def personalLogin_def)
  have user: "req_user (demo_login pw) = Some ''bob''" for pw
    by (simp add: demo_login_def demo_request_def)
  have calm: "faults (demo_world []) = []"
    by (simp add: demo_world_def)
  have key: "jwt_key (config_get demo_env) = Some ''key''" "''key'' \<noteq> []"
    by (simp_all add: demo_env_def demo_config_def)
  have found: "users_findUnique ''bob'' (db (demo_world [])) = Some (demo_user ''bob'')"
    by (simp add: users_findUnique_def demo_world_def demo_db_def demo_user_def)
  have wrong: "fst (personalFolderLogin demo_env (demo_login ''q'') (demo_world []))
       = send 401 (Ko ''Wrong password'')"
    by (simp add: personalFolderLogin_def try_next_def valid user await_query rejected_def calm
        found await_string_arg as_string_def demo_login_def demo_request_def demo_env_def
        demo_user_def await_actions_log resolve_def personalLogin_def)
  from personalFolderLogin_iff [OF valid user calm key, of "''p''"] obtain pw
    where pw: "jsprop (body (demo_login ''p'')) ''password'' = Some (JStr pw)"
      and outcome:
        "let res = fst (personalFolderLogin demo_env (demo_login ''p'') (demo_world []));
             matches = (case users_findUnique ''bob'' (db (demo_world [])) of
                          None \<Rightarrow> False
                        | Some u \<Rightarrow> checkPassword demo_env pw (u_personalsecret u))
         in (status res = 200) = matches
          \<and> (if matches
             then \<exists>t. reply res = Ok (JwtData t)
                    \<and> jwt_personalfolder (jwt_claims t)
                    \<and> jwt_user (jwt_claims t) = ''bob''
                    \<and> jwt_iat (jwt_claims t) = clock demo_env
                    \<and> jwt_signature t = HMAC HS512 ''key'' (jwt_claims t)
             else status res = 401 \<and> (\<exists>m. reply res = Ko m))"
    by blast
  from pw have "pw = ''p''"
    by (simp add: demo_login_def demo_request_def)
  then have matches: "checkPassword demo_env pw (u_personalsecret (demo_user ''bob''))"
    by (simp add: demo_env_def demo_user_def)
  from outcome matches wrong show ?thesis
    by (auto simp add: found Let_def)
qed

section \<open>Theorems on create\<close>

text \<open>
  What \<open>create\<close> does to the store, for every request and every world: its three
  writes add the user row \<open>u\<close>, then the folder row \<open>f\<close>, then the membership row \<open>g\<close>,
  and the store it leaves holds none of them, or \<open>u\<close>, or \<open>u\<close> and \<open>f\<close>, or all three;
  the answer is 201 only in the last case.
\<close>

lemma create_effect:
  "\<exists>u f g. u_id u = newId e (ids w)
      \<and> f_personal f \<and> f_user f = Some (u_id u) \<and> f_parent f = Some ''P''
      \<and> ug_user g = u_id u \<and> ug_group g = ''E''
      \<and> (db (snd (create e req w)) = db w
         \<or> db (snd (create e req w)) = (db w)\<lparr>users := users (db w) @ [u]\<rparr>
         \<or> db (snd (create e req w)) =
              (db w)\<lparr>users := users (db w) @ [u], folders := folders (db w) @ [f]\<rparr>
         \<or> db (snd (create e req w)) =
              (db w)\<lparr>users := users (db w) @ [u], folders := folders (db w) @ [f],
                      usersGroups := usersGroups (db w) @ [g]\<rparr>)
      \<and> (status (fst (create e req w)) = 201 \<longrightarrow>
           db (snd (create e req w)) =
              (db w)\<lparr>users := users (db w) @ [u], folders := folders (db w) @ [f],
                      usersGroups := usersGroups (db w) @ [g]\<rparr>
           \<and> reply (fst (create e req w)) = Ok (Value (JObj [(''id'', JStr (u_id u))])))"
proof -
  define u where "u =
     \<lparr>u_id = newId e (ids w),
      u_login = the (as_string (jsprop (body req) ''login'')),
      u_lastname = the (as_string (jsprop (body req) ''lastname'')),
      u_firstname = Some (the (as_string (jsprop (body req) ''firstname''))),
      u_authmethod = the (as_string (nullish (jsprop (body req) ''authmethod'') (JStr ''local''))),
      u_locale = the (as_string (nullish (jsprop (body req) ''locale'') (JStr ''en_US''))),
      u_email = the (as_string (jsprop (body req) ''email'')),
      u_secret = hashPassword e (the (as_string (jsprop (body req) ''secret''))),
      u_secretexpiresat = Date 2050 12 31 23 59 59,
      u_personalsecret = None, u_active = True,
      u_createdat = Instant (clock e), u_updatedat = Instant (clock e)\<rparr>"
  define f where "f =
     \<lparr>f_id = newId e (Suc (ids w)), f_parent = Some ''P'',
      f_description = the (as_string (jsprop (body req) ''login'')),
      f_personal = True, f_user = Some (newId e (ids w)),
      f_createdat = Instant (clock e), f_updatedat = Instant (clock e)\<rparr>"
  define g where "g =
     \<lparr>ug_id = newId e (Suc (Suc (ids w))), ug_user = newId e (ids w), ug_group = ''E'',
      ug_createdat = Instant (clock e), ug_updatedat = Instant (clock e)\<rparr>"
  have rows: "u_id u = newId e (ids w) \<and> f_personal f \<and> f_user f = Some (u_id u)
      \<and> f_parent f = Some ''P'' \<and> ug_user g = u_id u \<and> ug_group g = ''E''"
    by (simp add: u_def f_def g_def)
  have run: "(case create e req w of (res, w') \<Rightarrow>
        (db w' = db w
         \<or> db w' = (db w)\<lparr>users := users (db w) @ [u]\<rparr>
         \<or> db w' = (db w)\<lparr>users := users (db w) @ [u], folders := folders (db w) @ [f]\<rparr>
         \<or> db w' = (db w)\<lparr>users := users (db w) @ [u], folders := folders (db w) @ [f],
                      usersGroups := usersGroups (db w) @ [g]\<rparr>)
      \<and> (status res = 201 \<longrightarrow>
           db w' = (db w)\<lparr>users := users (db w) @ [u], folders := folders (db w) @ [f],
                      usersGroups := usersGroups (db w) @ [g]\<rparr>
           \<and> reply res = Ok (Value (JObj [(''id'', JStr (u_id u))]))))"
    unfolding create_def try_next_def
    by (simp add: await_isAdmin_request await_draw_id await_string_arg
      await_mutate_prisma await_actions_log await_Pair_Inr await_Pair_Inl
      resolve_def reject_def send_def users_create_def folders_create_def
      usersGroups_create_def u_def f_def g_def
      split: option.splits sum.splits)
  obtain res w' where r: "create e req w = (res, w')"
    by (cases "create e req w")
  show ?thesis
    by (rule exI [of _ u], rule exI [of _ f], rule exI [of _ g]) (use rows run r in simp)
qed

lemma demo_create_run:
  "status (fst (create demo_env demo_create (demo_world []))) = 201"
  "fst (create demo_env demo_create (demo_world [False, True])) = send 500 (Ko ''Internal error'')"
  "map u_id (users (db (snd (create demo_env demo_create (demo_world [False, True])))))
     = [''0'', ''bob'', ''n'']"
  "folders (db (snd (create demo_env demo_create (demo_world [False, True])))) = [demo_folder]"
  unfolding create_def try_next_def
  by (simp_all add: await_isAdmin_request await_draw_id await_string_arg as_string_def
      nullish_def await_mutate_prisma await_actions_log resolve_def send_def rejected_def
      users_create_def folders_create_def usersGroups_create_def createSchema_def
      demo_create_def demo_request_def demo_env_def demo_world_def demo_db_def demo_user_def
      demo_membership_def demo_folder_def)

text \<open>
  C6, as the claim states it, does not hold: \<open>create\<close> issues its writes one after the
  other on the module's client, outside any transaction. Here the request is valid,
  the write of the user row succeeds and the write of the folder row is rejected: the
  answer is 500, the user row \<open>n\<close> is in the store and no folder has been added.
\<close>

theorem create_not_atomic_counterexample:
  "validate (body demo_create) createSchema
   \<and> fst (create demo_env demo_create (demo_world [False, True]))
       = send 500 (Ko ''Internal error'')
   \<and> map u_id (users (db (snd (create demo_env demo_create (demo_world [False, True])))))
       = [''0'', ''bob'', ''n'']
   \<and> folders (db (snd (create demo_env demo_create (demo_world [False, True]))))
       = folders (db (demo_world [False, True]))"
  by (simp add: demo_create_run)
    (simp add: createSchema_def demo_create_def demo_request_def demo_world_def demo_db_def)

text \<open>
  C6, amended. \<open>create\<close> writes the user row, then its personal folder (marked
  personal, owned by the new user, under the anchor \<open>P\<close>), then the membership of
  Everyone, each write committed on its own. Whatever fails, the store afterwards
  holds a prefix of these three writes: the folder is never there without the user
  row, the user row can be there without the folder; and when \<open>create\<close> answers 201
  all three rows have been written and the reply names the new user's id.
\<close>

theorem create_writes_in_order:
  "\<exists>u f g. u_id u = newId e (ids w)
      \<and> f_personal f \<and> f_user f = Some (u_id u) \<and> f_parent f = Some ''P''
      \<and> ug_user g = u_id u \<and> ug_group g = ''E''
      \<and> (db (snd (create e req w)) = db w
         \<or> db (snd (create e req w)) = (db w)\<lparr>users := users (db w) @ [u]\<rparr>
         \<or> db (snd (create e req w)) =
              (db w)\<lparr>users := users (db w) @ [u], folders := folders (db w) @ [f]\<rparr>
         \<or> db (snd (create e req w)) =
              (db w)\<lparr>users := users (db w) @ [u], folders := folders (db w) @ [f],
                      usersGroups := usersGroups (db w) @ [g]\<rparr>)
      \<and> (status (fst (create e req w)) = 201 \<longrightarrow>
           db (snd (create e req w)) =
              (db w)\<lparr>users := users (db w) @ [u], folders := folders (db w) @ [f],
                      usersGroups := usersGroups (db w) @ [g]\<rparr>
           \<and> reply (fst (create e req w)) = Ok (Value (JObj [(''id'', JStr (u_id u))])))"
  by (rule create_effect)

theorem create_writes_in_order_witness:
  "\<exists>u f g. u_id u = ''n'' \<and> f_personal f \<and> f_user f = Some ''n'' \<and> f_parent f = Some ''P''
      \<and> status (fst (create demo_env demo_create (demo_world []))) = 201
      \<and> db (snd (create demo_env demo_create (demo_world []))) =
           demo_db\<lparr>users := users demo_db @ [u], folders := folders demo_db @ [f],
                   usersGroups := usersGroups demo_db @ [g]\<rparr>"
proof -
  have fresh: "newId demo_env (ids (demo_world [])) = ''n''"
    by (simp add: demo_env_def demo_world_def)
  have store: "db (demo_world []) = demo_db"
    by (simp add: demo_world_def)
  from create_writes_in_order [of demo_env "demo_world []" demo_create]
  obtain u f g where
    "u_id u = ''n''" "f_personal f" "f_user f = Some (u_id u)" "f_parent f = Some ''P''"
    "status (fst (create demo_env demo_create (demo_world []))) = 201 \<longrightarrow>
       db (snd (create demo_env demo_create (demo_world []))) =
           demo_db\<lparr>users := users demo_db @ [u], folders := folders demo_db @ [f],
                   usersGroups := usersGroups demo_db @ [g]\<rparr>
       \<and> reply (fst (create demo_env demo_create (demo_world [])))
           = Ok (Value (JObj [(''id'', JStr (u_id u))]))"
    unfolding fresh store by (elim exE conjE)
  with demo_create_run(1) show ?thesis
    by (intro exI [of _ u] exI [of _ f] exI [of _ g]) simp
qed

text \<open>
  C7. When \<open>create\<close> answers 201, the reply names the new user's id and the store holds
  a membership row linking that id to the group \<open>E\<close> (Everyone).
\<close>

theorem created_user_joins_everyone:
  assumes "status (fst (create e req w)) = 201"
  shows "reply (fst (create e req w)) = Ok (Value (JObj [(''id'', JStr (newId e (ids w)))]))
       \<and> list_ex (\<lambda>g. ug_user g = newId e (ids w) \<and> ug_group g = ''E'')
           (usersGroups (db (snd (create e req w))))"
proof -
  from create_effect [of e w req] assms obtain u f g where
    "u_id u = newId e (ids w)" "ug_user g = u_id u" "ug_group g = ''E''"
    "db (snd (create e req w)) =
       (db w)\<lparr>users := users (db w) @ [u], folders := folders (db w) @ [f],
               usersGroups := usersGroups (db w) @ [g]\<rparr>"
    "reply (fst (create e req w)) = Ok (Value (JObj [(''id'', JStr (u_id u))]))"
    by blast
  then show ?thesis by simp
qed

theorem created_user_joins_everyone_witness:
  "status (fst (create demo_env demo_create (demo_world []))) = 201
   \<and> reply (fst (create demo_env demo_create (demo_world [])))
       = Ok (Value (JObj [(''id'', JStr ''n'')]))
   \<and> list_ex (\<lambda>g. ug_user g = ''n'' \<and> ug_group g = ''E'')
       (usersGroups (db (snd (create demo_env demo_create (demo_world [])))))"
proof -
  have fresh: "newId demo_env (ids (demo_world [])) = ''n''"
    by (simp add: demo_env_def demo_world_def)
  from created_user_joins_everyone [OF demo_create_run(1)] show ?thesis
    by (simp add: demo_create_run(1) fresh)
qed

section \<open>Theorems on update\<close>

lemma has_type_string: "has_type TString v \<Longrightarrow> string_or_absent (Some v)"
  by (cases v) (simp_all add: string_or_absent_def)

lemma has_type_pattern: "has_type (TStringPattern alts) v \<Longrightarrow> string_or_absent (Some v)"
  by (cases v) (simp_all add: string_or_absent_def)

lemma has_type_boolean: "has_type TBoolean v \<Longrightarrow> boolean_or_absent (Some v)"
  by (cases v) (simp_all add: boolean_or_absent_def)

lemma validate_property:
  assumes "validate b sch" and "(k, t) \<in> set (properties sch)"
  shows "jsprop b k = None \<or> (\<exists>v. jsprop b k = Some v \<and> has_type t v)"
proof (cases b)
  case (JObj kvs)
  with assms have "\<forall>x\<in>set (properties sch). property_ok kvs x"
    by (simp add: list_all_iff)
  with assms(2) have "property_ok kvs (k, t)"
    by blast
  with JObj show ?thesis
    by (cases "map_of kvs k") simp_all
qed (use assms in simp_all)

lemma validate_update_string:
  assumes "validate b updateSchema"
      and "(k, TString) \<in> set (properties updateSchema)"
  shows "string_or_absent (jsprop b k)"
  using validate_property [OF assms] has_type_string
  by (auto simp add: string_or_absent_def)

lemma validate_updateSchema:
  assumes "validate b updateSchema"
  shows "string_or_absent (jsprop b ''login'')"
    and "string_or_absent (jsprop b ''firstname'')"
    and "string_or_absent (jsprop b ''lastname'')"
    and "string_or_absent (jsprop b ''locale'')"
    and "string_or_absent (jsprop b ''email'')"
    and "string_or_absent (jsprop b ''secret'')"
  by (rule validate_update_string [OF assms], simp add: updateSchema_def)+

lemma validate_update_authmethod:
  assumes "validate b updateSchema"
  shows "string_or_absent (jsprop b ''authmethod'')"
proof -
  have "(''authmethod'', TStringPattern [''local'', ''ldap'']) \<in> set (properties updateSchema)"
    by (simp add: updateSchema_def)
  from validate_property [OF assms this] has_type_pattern show ?thesis
    by (auto simp add: string_or_absent_def)
qed

lemma validate_update_active:
  assumes "validate b updateSchema"
  shows "boolean_or_absent (jsprop b ''active'')"
proof -
  have "(''active'', TBoolean) \<in> set (properties updateSchema)"
    by (simp add: updateSchema_def)
  from validate_property [OF assms this] has_type_boolean show ?thesis
    by (auto simp add: boolean_or_absent_def)
qed

lemma string_or_absent_cases:
  "string_or_absent v \<Longrightarrow> v = None \<or> (\<exists>s. v = Some (JStr s))"
  by (auto simp add: string_or_absent_def split: option.splits jsval.splits)

lemma kept_simps:
  "kept None = None"
  "kept (Some (JStr s)) = (if s = [] then None else Some (JStr s))"
  "kept (Some (JBool a)) = (if a then Some (JBool a) else None)"
  by (simp_all add: kept_def)

lemma set_if_truthy:
  "(if truthy v then us\<lparr>us_login := v\<rparr> else us) =
     us\<lparr>us_login := (if truthy v then v else us_login us)\<rparr>"
  "(if truthy v then us\<lparr>us_firstname := v\<rparr> else us) =
     us\<lparr>us_firstname := (if truthy v then v else us_firstname us)\<rparr>"
  "(if truthy v then us\<lparr>us_lastname := v\<rparr> else us) =
     us\<lparr>us_lastname := (if truthy v then v else us_lastname us)\<rparr>"
  "(if truthy v then us\<lparr>us_authmethod := v\<rparr> else us) =
     us\<lparr>us_authmethod := (if truthy v then v else us_authmethod us)\<rparr>"
  "(if truthy v then us\<lparr>us_locale := v\<rparr> else us) =
     us\<lparr>us_locale := (if truthy v then v else us_locale us)\<rparr>"
  "(if truthy v then us\<lparr>us_email := v\<rparr> else us) =
     us\<lparr>us_email := (if truthy v then v else us_email us)\<rparr>"
  by simp_all

lemma build_update_run:
  assumes valid: "validate b updateSchema"
      and plain: "jsprop b ''hasOwnProperty'' = None"
  shows "build_update e b w = (Inr (built e b), w)"
proof -
  from validate_updateSchema(6) [OF valid]
  have secret: "jsprop b ''secret'' = None \<or> (\<exists>s. jsprop b ''secret'' = Some (JStr s))"
    by (rule string_or_absent_cases)
  have chain: "build_update e b =
      await (if truthy (jsprop b ''secret'')
             then await (string_arg (jsprop b ''secret''))
                    (\<lambda>secret. resolve
                       \<lparr>us_login = kept (jsprop b ''login''),
                        us_firstname = kept (jsprop b ''firstname''),
                        us_lastname = kept (jsprop b ''lastname''),
                        us_authmethod = kept (jsprop b ''authmethod''),
                        us_locale = kept (jsprop b ''locale''),
                        us_email = kept (jsprop b ''email''),
                        us_secret = Some (hashPassword e secret),
                        us_secretexpiresat = Some (Date 2050 12 31 23 59 59),
                        us_active = None\<rparr>)
             else resolve
                       \<lparr>us_login = kept (jsprop b ''login''),
                        us_firstname = kept (jsprop b ''firstname''),
                        us_lastname = kept (jsprop b ''lastname''),
                        us_authmethod = kept (jsprop b ''authmethod''),
                        us_locale = kept (jsprop b ''locale''),
                        us_email = kept (jsprop b ''email''),
                        us_secret = None,
                        us_secretexpiresat = None,
                        us_active = None\<rparr>)
        (\<lambda>us. await (hasOwnProperty b ''active'')
             (\<lambda>has. resolve (if has then us\<lparr>us_active := jsprop b ''active''\<rparr> else us)))"
    unfolding build_update_def Let_def set_if_truthy
    by (simp add: empty_struct_def kept_def split del: if_split cong: if_cong)
  from secret show ?thesis
  proof
    assume "jsprop b ''secret'' = None"
    then show ?thesis
      by (simp add: chain plain hasOwnProperty_def kept_simps as_string_def resolve_def
          await_Pair_Inr built_def)
  next
    assume "\<exists>s. jsprop b ''secret'' = Some (JStr s)"
    then obtain s where "jsprop b ''secret'' = Some (JStr s)" ..
    then show ?thesis
      by (simp add: chain plain hasOwnProperty_def kept_simps as_string_def string_arg_def
          resolve_def await_Pair_Inr built_def)
  qed
qed

lemma string_or_absent_kept: "string_or_absent v \<Longrightarrow> string_or_absent (kept v)"
  by (simp add: kept_def string_or_absent_def)

lemma kept_string:
  assumes "string_or_absent v"
  shows "(case kept v of Some (JStr s) \<Rightarrow> f s | _ \<Rightarrow> x) =
         (case v of Some (JStr s) \<Rightarrow> if s = [] then x else f s | _ \<Rightarrow> x)"
  using string_or_absent_cases [OF assms] by (auto simp add: kept_simps)

lemma find_list_ex: "find P xs = Some x \<Longrightarrow> list_ex P xs"
  by (auto simp add: find_Some_iff list_ex_iff)

text \<open>The run of \<open>update\<close> for an administrator's request with a valid body on a user
  that exists, when the store answers.\<close>

lemma update_run:
  assumes admin: "req_jwt req = Some j" "jwt_admin j"
      and valid: "validate (body req) updateSchema"
      and plain: "jsprop (body req) ''hasOwnProperty'' = None"
      and calm: "faults w = []"
      and found: "users_findUnique (params_id req) (db w) = Some u0"
  shows "update e req w =
      (send 200 (Ok NoData),
       w\<lparr>db := (db w)\<lparr>users := map (\<lambda>u. if u_id u = params_id req
                                     then apply_update (built e (body req)) (Instant (clock e)) u
                                     else u)
                              (users (db w))\<rparr>,
         audit := audit w @ [\<lparr>al_user = req_user req, al_action = ''update'',
                               al_itemtype = ''user'', al_itemid = Some (params_id req)\<rparr>]\<rparr>)"
proof -
  note fields = validate_updateSchema [OF valid]
  have typed: "well_typed (built e (body req))"
    by (simp add: built_def well_typed_def fields string_or_absent_kept
        validate_update_authmethod [OF valid] validate_update_active [OF valid])
  have present: "list_ex (\<lambda>u. u_id u = params_id req) (users (db w))"
    using found unfolding users_findUnique_def by (rule find_list_ex)
  have awaited: "await (build_update e (body req)) g w' = g (built e (body req)) w'" for g w'
    by (simp add: await_def build_update_run [OF valid plain])
  show ?thesis
    unfolding update_def try_next_def
    by (simp add: await_isAdmin_request admin valid await_query rejected_def calm found
        awaited typed await_mutate_prisma users_updateUnique_def present await_actions_log
        resolve_def del: validate.simps)
qed

lemma demo_update_run:
  assumes "validate (JObj kvs) updateSchema" and "map_of kvs ''hasOwnProperty'' = None"
  shows "update demo_env (demo_update kvs) (demo_world []) =
      (send 200 (Ok NoData),
       (demo_world [])\<lparr>db := demo_db\<lparr>users :=
            [demo_user ''0'',
             apply_update (built demo_env (JObj kvs)) (Instant 100) (demo_user ''bob'')]\<rparr>,
         audit := [\<lparr>al_user = Some ''0'', al_action = ''update'',
                    al_itemtype = ''user'', al_itemid = Some ''bob''\<rparr>]\<rparr>)"
proof -
  have admin: "req_jwt (demo_update kvs) = Some \<lparr>jwt_user = ''0'', jwt_admin = True,
        jwt_personalfolder = False, jwt_iat = 0, jwt_nbf = None, jwt_exp = Some 3600\<rparr>"
      "jwt_admin \<lparr>jwt_user = ''0'', jwt_admin = True,
        jwt_personalfolder = False, jwt_iat = 0, jwt_nbf = None, jwt_exp = Some 3600\<rparr>"
    by (simp_all add: demo_update_def demo_request_def)
  have valid: "validate (body (demo_update kvs)) updateSchema"
    using assms(1) by (simp add: demo_update_def demo_request_def)
  have plain: "jsprop (body (demo_update kvs)) ''hasOwnProperty'' = None"
    using assms(2) by (simp add: demo_update_def demo_request_def)
  have calm: "faults (demo_world []) = []"
    by (simp add: demo_world_def)
  have found: "users_findUnique (params_id (demo_update kvs)) (db (demo_world []))
      = Some (demo_user ''bob'')"
    by (simp add: demo_update_def demo_request_def demo_world_def demo_db_def demo_user_def
        users_findUnique_def)
  show ?thesis
    unfolding update_run [OF admin valid plain calm found]
    by (simp add: demo_update_def demo_request_def demo_world_def demo_db_def demo_user_def
        demo_env_def)
qed

text \<open>
  C10, as the claim states it, does not hold: the claim lists the fields that can
  change and \<open>secretexpiresat\<close> is not among them, yet a request that carries only a
  new secret also resets the secret's expiry (line 303).
\<close>

theorem update_resets_expiry_counterexample:
  "map u_secretexpiresat (users (db (demo_world []))) = [Instant 0, Instant 0]
   \<and> fst (update demo_env (demo_update [(''secret'', JStr ''new'')]) (demo_world []))
       = send 200 (Ok NoData)
   \<and> map u_secretexpiresat
        (users (db (snd (update demo_env (demo_update [(''secret'', JStr ''new'')])
                           (demo_world [])))))
       = [Instant 0, Date 2050 12 31 23 59 59]"
proof -
  have run: "update demo_env (demo_update [(''secret'', JStr ''new'')]) (demo_world []) =
      (send 200 (Ok NoData),
       (demo_world [])\<lparr>db := demo_db\<lparr>users :=
            [demo_user ''0'',
             apply_update (built demo_env (JObj [(''secret'', JStr ''new'')])) (Instant 100)
               (demo_user ''bob'')]\<rparr>,
         audit := [\<lparr>al_user = Some ''0'', al_action = ''update'',
                    al_itemtype = ''user'', al_itemid = Some ''bob''\<rparr>]\<rparr>)"
    by (rule demo_update_run) (simp_all add: updateSchema_def)
  show ?thesis
    unfolding run
    by (simp add: demo_world_def demo_db_def demo_user_def apply_update_def built_def
        kept_simps as_string_def)
qed

text \<open>
  C10, amended. For an administrator's request with a valid body on an existing
  user, when the store answers: only the row of that user changes, and in it \<open>id\<close>,
  \<open>personalsecret\<close> and \<open>createdat\<close> keep their values; each of \<open>login\<close>, \<open>firstname\<close>,
  \<open>lastname\<close>, \<open>authmethod\<close>, \<open>locale\<close>, \<open>email\<close> keeps its stored value when the body
  does not carry it or carries the empty string, and takes the carried value
  otherwise; \<open>secret\<close> likewise, taking the hash of the carried value, and together
  with it \<open>secretexpiresat\<close> is reset; \<open>active\<close> takes the carried boolean, also when
  it is false. (\<open>updatedat\<close> is maintained by the store and is not part of the
  statement.)
\<close>

theorem update_frame:
  assumes admin: "req_jwt req = Some j" "jwt_admin j"
      and valid: "validate (body req) updateSchema"
      and plain: "jsprop (body req) ''hasOwnProperty'' = None"
      and calm: "faults w = []"
      and found: "users_findUnique (params_id req) (db w) = Some u0"
  shows "\<exists>change.
      fst (update e req w) = send 200 (Ok NoData)
    \<and> db (snd (update e req w)) =
        (db w)\<lparr>users := map (\<lambda>u. if u_id u = params_id req then change u else u)
                            (users (db w))\<rparr>
    \<and> (\<forall>u. u_id (change u) = u_id u
           \<and> u_personalsecret (change u) = u_personalsecret u
           \<and> u_createdat (change u) = u_createdat u
           \<and> u_login (change u) =
               (case jsprop (body req) ''login'' of
                  Some (JStr s) \<Rightarrow> if s = [] then u_login u else s | _ \<Rightarrow> u_login u)
           \<and> u_firstname (change u) =
               (case jsprop (body req) ''firstname'' of
                  Some (JStr s) \<Rightarrow> if s = [] then u_firstname u else Some s
                | _ \<Rightarrow> u_firstname u)
           \<and> u_lastname (change u) =
               (case jsprop (body req) ''lastname'' of
                  Some (JStr s) \<Rightarrow> if s = [] then u_lastname u else s | _ \<Rightarrow> u_lastname u)
           \<and> u_authmethod (change u) =
               (case jsprop (body req) ''authmethod'' of
                  Some (JStr s) \<Rightarrow> if s = [] then u_authmethod u else s
                | _ \<Rightarrow> u_authmethod u)
           \<and> u_locale (change u) =
               (case jsprop (body req) ''locale'' of
                  Some (JStr s) \<Rightarrow> if s = [] then u_locale u else s | _ \<Rightarrow> u_locale u)
           \<and> u_email (change u) =
               (case jsprop (body req) ''email'' of
                  Some (JStr s) \<Rightarrow> if s = [] then u_email u else s | _ \<Rightarrow> u_email u)
           \<and> u_secret (change u) =
               (case jsprop (body req) ''secret'' of
                  Some (JStr s) \<Rightarrow> if s = [] then u_secret u else hashPassword e s
                | _ \<Rightarrow> u_secret u)
           \<and> u_secretexpiresat (change u) =
               (case jsprop (body req) ''secret'' of
                  Some (JStr s) \<Rightarrow>
                    if s = [] then u_secretexpiresat u else Date 2050 12 31 23 59 59
                | _ \<Rightarrow> u_secretexpiresat u)
           \<and> u_active (change u) =
               (case jsprop (body req) ''active'' of
                  Some (JBool a) \<Rightarrow> a | _ \<Rightarrow> u_active u))"
proof -
  note fields = validate_updateSchema [OF valid]
  note run = update_run [OF admin valid plain calm found, of e]
  show ?thesis
    apply (rule exI [of _ "apply_update (built e (body req)) (Instant (clock e))"])
    apply (simp only: run fst_conv snd_conv)
    apply (simp add: apply_update_def built_def kept_string fields
        validate_update_authmethod [OF valid])
    using string_or_absent_cases [OF fields(6)]
    apply (auto simp add: kept_simps as_string_def)
    done
qed

text \<open>An empty login is left alone, \<open>active = false\<close> is applied.\<close>

theorem update_frame_witness:
  "fst (update demo_env (demo_update [(''login'', JStr []), (''active'', JBool False)])
          (demo_world []))
     = send 200 (Ok NoData)
   \<and> map u_login
        (users (db (snd (update demo_env
                           (demo_update [(''login'', JStr []), (''active'', JBool False)])
                           (demo_world [])))))
       = [''0'', ''bob'']
   \<and> map u_active
        (users (db (snd (update demo_env
                           (demo_update [(''login'', JStr []), (''active'', JBool False)])
                           (demo_world [])))))
       = [True, False]"
proof -
  let ?req = "demo_update [(''login'', JStr []), (''active'', JBool False)]"
  have admin: "req_jwt ?req = Some \<lparr>jwt_user = ''0'', jwt_admin = True,
        jwt_personalfolder = False, jwt_iat = 0, jwt_nbf = None, jwt_exp = Some 3600\<rparr>"
      "jwt_admin \<lparr>jwt_user = ''0'', jwt_admin = True,
        jwt_personalfolder = False, jwt_iat = 0, jwt_nbf = None, jwt_exp = Some 3600\<rparr>"
    by (simp_all add: demo_update_def demo_request_def)
  have valid: "validate (body ?req) updateSchema"
    by (simp add: demo_update_def demo_request_def updateSchema_def)
  have plain: "jsprop (body ?req) ''hasOwnProperty'' = None"
    by (simp add: demo_update_def demo_request_def)
  have calm: "faults (demo_world []) = []"
    by (simp add: demo_world_def)
  have found: "users_findUnique (params_id ?req) (db (demo_world [])) = Some (demo_user ''bob'')"
    by (simp add: demo_update_def demo_request_def demo_world_def demo_db_def demo_user_def
        users_findUnique_def)
  from update_frame [OF admin valid plain calm found, of demo_env] obtain change where
    answer: "fst (update demo_env ?req (demo_world [])) = send 200 (Ok NoData)"
    and store: "db (snd (update demo_env ?req (demo_world []))) =
        (db (demo_world []))\<lparr>users :=
           map (\<lambda>u. if u_id u = params_id ?req then change u else u)
             (users (db (demo_world [])))\<rparr>"
    and login: "\<And>u. u_login (change u) =
               (case jsprop (body ?req) ''login'' of
                  Some (JStr s) \<Rightarrow> if s = [] then u_login u else s | _ \<Rightarrow> u_login u)"
    and active: "\<And>u. u_active (change u) =
               (case jsprop (body ?req) ''active'' of
                  Some (JBool a) \<Rightarrow> a | _ \<Rightarrow> u_active u)"
    by (elim exE conjE) simp
  have login': "u_login (change u) = u_login u" for u
    by (simp add: login demo_update_def demo_request_def)
  have active': "u_active (change u) = False" for u
    by (simp add: active demo_update_def demo_request_def)
  have logins: "map u_login (users (db (snd (update demo_env ?req (demo_world []))))) =
      [''0'', ''bob'']"
    unfolding store
    by (simp add: login' demo_update_def demo_request_def demo_world_def demo_db_def
        demo_user_def)
  have actives: "map u_active (users (db (snd (update demo_env ?req (demo_world []))))) =
      [True, False]"
    unfolding store
    by (simp add: active' demo_update_def demo_request_def demo_world_def demo_db_def
        demo_user_def)
  from answer logins actives show ?thesis
    by (intro conjI)
qed

section \<open>The built-in administrator is never removed\<close>

lemma keeps_resolve: "keeps P (resolve a)"
  by (simp add: keeps_def resolve_def)

lemma keeps_reject: "keeps P (reject err)"
  by (simp add: keeps_def reject_def)

lemma keeps_await:
  assumes "keeps P m" and "\<And>a. keeps P (f a)"
  shows "keeps P (await m f)"
  unfolding keeps_def
proof (intro allI impI)
  fix w assume "P w"
  with assms(1) have first: "P (snd (m w))" by (simp add: keeps_def)
  show "P (snd (await m f w))"
  proof (cases "m w")
    case (Pair r w')
    with first have "P w'" by simp
    with assms(2) Pair show ?thesis
      by (cases r) (simp_all add: await_def keeps_def)
  qed
qed

lemma keeps_if:
  assumes "c \<Longrightarrow> keeps P a" and "\<not> c \<Longrightarrow> keeps P b"
  shows "keeps P (if c then a else b)"
  using assms by simp

lemma keeps_case_option:
  assumes "x = None \<Longrightarrow> keeps P a" and "\<And>y. x = Some y \<Longrightarrow> keeps P (f y)"
  shows "keeps P (case x of None \<Rightarrow> a | Some y \<Rightarrow> f y)"
  using assms by (cases x) simp_all

lemma keeps_case_sum:
  assumes "\<And>y. keeps P (f y)" and "\<And>y. keeps P (g y)"
  shows "keeps P (case x of Inl y \<Rightarrow> f y | Inr y \<Rightarrow> g y)"
  using assms by (cases x) simp_all

lemma keeps_query: "keeps (intact s) (query f)"
  by (simp add: keeps_def query_def Let_def intact_def)

lemma keeps_draw_id: "keeps (intact s) (draw_id e)"
  by (simp add: keeps_def draw_id_def intact_def)

lemma keeps_actions_log: "keeps (intact s) (actions_log u a t i)"
  by (simp add: keeps_def actions_log_def intact_def)

lemma keeps_string_arg: "keeps P (string_arg v)"
  by (simp add: string_arg_def keeps_resolve keeps_reject split: option.splits jsval.splits)

lemma keeps_hasOwnProperty: "keeps P (hasOwnProperty v k)"
  by (simp add: hasOwnProperty_def keeps_resolve keeps_reject)

lemma keeps_mutate:
  assumes "safe m"
  shows "keeps (intact s) (mutate Prisma m)"
  using assms
  by (auto simp add: keeps_def mutate_def Let_def intact_def safe_def split: sum.splits)

lemma keeps_transaction:
  assumes "keeps (intact True) (callback Tx)"
  shows "keeps (intact s) (transaction callback)"
  unfolding keeps_def
proof (intro allI impI)
  fix w assume "intact s w"
  then have "intact True (w\<lparr>pending := []\<rparr>)"
    by (simp add: intact_def)
  with assms have after: "intact True (snd (callback Tx (w\<lparr>pending := []\<rparr>)))"
    by (simp add: keeps_def)
  show "intact s (snd (transaction callback w))"
  proof (cases "callback Tx (w\<lparr>pending := []\<rparr>)")
    case (Pair r w')
    with after have "intact True w'" by simp
    then show ?thesis
      using Pair by (cases r) (simp_all add: transaction_def intact_def)
  qed
qed

lemma keeps_isAdmin: "keeps (intact s) (isAdmin entity)"
  by (cases entity)
    (auto simp add: isAdmin_def intro!: keeps_await keeps_query keeps_resolve keeps_reject
      keeps_case_option)

lemma keeps_createToken: "keeps (intact s) (createToken e u p)"
  unfolding createToken_def
  by (intro keeps_await keeps_isAdmin keeps_case_sum keeps_resolve keeps_reject)

lemma keeps_build_update: "keeps (intact s) (build_update e b)"
  unfolding build_update_def Let_def
  by (intro keeps_await keeps_if keeps_string_arg keeps_resolve keeps_hasOwnProperty)

lemma keeps_try_next:
  assumes "keeps P m" and "P w"
  shows "P (snd (try_next m w))"
proof -
  from assms have "P (snd (m w))" by (simp add: keeps_def)
  then show ?thesis
    by (cases "m w") (simp add: try_next_def split: sum.splits)
qed

lemma safe_create:
  "safe (users_create r)" "safe (folders_create f)" "safe (usersGroups_create g)"
  by (auto simp add: safe_def admin_exists_def users_create_def folders_create_def
      usersGroups_create_def split: if_splits)

lemma safe_delete:
  "safe (usersGroups_deleteMany i)" "safe (items_deleteMany i)" "safe (folders_delete i)"
  by (auto simp add: safe_def admin_exists_def usersGroups_deleteMany_def items_deleteMany_def
      folders_delete_def split: if_splits)

lemma safe_users_delete: "i \<noteq> ''0'' \<Longrightarrow> safe (users_delete i)"
  by (auto simp add: safe_def admin_exists_def users_delete_def list_ex_iff split: if_splits)

lemma list_ex_id_map:
  assumes "\<And>u. u_id (change u) = u_id u"
  shows "list_ex (\<lambda>u. u_id u = k) (map (\<lambda>u. if u_id u = i then change u else u) xs) =
         list_ex (\<lambda>u. u_id u = k) xs"
  by (induction xs) (simp_all add: assms)

lemma safe_users_update:
  assumes "\<And>u. u_id (change u) = u_id u"
  shows "safe (users_updateUnique i change)"
  by (auto simp add: safe_def admin_exists_def users_updateUnique_def list_ex_id_map [OF assms]
      split: if_splits)

lemma get_keeps: "intact s w \<Longrightarrow> intact s (snd (get req w))"
  unfolding get_def Let_def
  by (rule keeps_try_next)
    (intro keeps_await keeps_query keeps_case_option keeps_resolve)

lemma create_keeps: "intact s w \<Longrightarrow> intact s (snd (create e req w))"
  unfolding create_def
  by (rule keeps_try_next)
    (intro keeps_await keeps_isAdmin keeps_if keeps_resolve keeps_draw_id keeps_string_arg
      keeps_mutate safe_create keeps_actions_log)

lemma update_keeps: "intact s w \<Longrightarrow> intact s (snd (update e req w))"
  unfolding update_def
  by (rule keeps_try_next)
    (intro keeps_await keeps_isAdmin keeps_if keeps_resolve keeps_query keeps_case_option
      keeps_build_update keeps_mutate safe_users_update keeps_reject keeps_actions_log,
      simp add: apply_update_def)

lemma remove_keeps: "intact s w \<Longrightarrow> intact s (snd (remove e req w))"
  unfolding remove_def Let_def
  by (rule keeps_try_next)
    (intro keeps_await keeps_isAdmin keeps_if keeps_resolve keeps_query keeps_case_option
      keeps_transaction keeps_mutate safe_delete safe_users_delete keeps_actions_log)

lemma setPersonalSecret_keeps: "intact s w \<Longrightarrow> intact s (snd (setPersonalSecret e req w))"
  unfolding setPersonalSecret_def
  by (rule keeps_try_next)
    (intro keeps_await keeps_if keeps_resolve keeps_string_arg keeps_case_option keeps_reject
      keeps_mutate safe_users_update keeps_actions_log, simp)

lemma personalFolderLogin_keeps: "intact s w \<Longrightarrow> intact s (snd (personalFolderLogin e req w))"
  unfolding personalFolderLogin_def
  by (rule keeps_try_next)
    (intro keeps_await keeps_if keeps_resolve keeps_string_arg keeps_case_option keeps_reject
      keeps_query keeps_createToken keeps_actions_log)

lemma serve_keeps: "intact s w \<Longrightarrow> intact s (snd (serve opn e req w))"
  by (cases opn)
    (simp_all add: get_keeps create_keeps update_keeps remove_keeps setPersonalSecret_keeps
      personalFolderLogin_keeps)

lemma serve_all_keeps: "intact s w \<Longrightarrow> intact s (serve_all calls w)"
proof (induction calls arbitrary: w)
  case Nil
  then show ?case by simp
next
  case (Cons c calls)
  obtain opn e req where c: "c = (opn, e, req)" by (cases c)
  from Cons.prems have "intact s (snd (serve opn e req w))" by (rule serve_keeps)
  then have "intact s (serve_all calls (snd (serve opn e req w)))" by (rule Cons.IH)
  with c show ?case by simp
qed

lemma admin_found:
  "admin_exists d = (\<exists>u. users_findUnique ''0'' d = Some u)"
  by (cases "users_findUnique ''0'' d")
    (auto simp add: admin_exists_def users_findUnique_def find_None_iff find_Some_iff
      list_ex_iff)

lemma remove_reserved:
  assumes "params_id req = ''0''"
  shows "remove e req w =
     (case req_jwt req of
        None \<Rightarrow> (send 500 (Ko ''Internal error''), w)
      | Some j \<Rightarrow>
          if \<not> jwt_admin j then (send 403 (Ko ''Unauthorized''), w)
          else if rejected w
            then (send 500 (Ko ''Internal error''), w\<lparr>faults := tl (faults w)\<rparr>)
          else if admin_exists (db w)
            then (send 422 (Ko ''Admin user cannot be removed''), w\<lparr>faults := tl (faults w)\<rparr>)
          else (send 404 (Ko ''User not found''), w\<lparr>faults := tl (faults w)\<rparr>))"
  unfolding remove_def try_next_def
  by (auto simp add: assms await_isAdmin_request await_query resolve_def admin_found
      split: option.splits)

text \<open>
  C5. A request to remove the user id \<open>0\<close> leaves the store as it was, whoever sends
  it; sent by an administrator while the row exists and the store answers, it is
  answered 422. And after any sequence of requests to \<open>get\<close>, \<open>create\<close>, \<open>update\<close>,
  \<open>remove\<close>, \<open>setPersonalSecret\<close> and \<open>personalFolderLogin\<close>, whatever the store rejects
  on the way, the row of user \<open>0\<close> still exists if it existed before. (The two other
  handlers of the controller, \<^verbatim>\<open>list\<close> and \<^verbatim>\<open>getGroups\<close>, only read.)
\<close>

theorem admin_user_never_removed:
  "(params_id req = ''0'' \<longrightarrow>
      db (snd (remove e req w)) = db w
    \<and> ((\<exists>j. req_jwt req = Some j \<and> jwt_admin j) \<and> \<not> rejected w \<and> admin_exists (db w) \<longrightarrow>
         fst (remove e req w) = send 422 (Ko ''Admin user cannot be removed'')))
   \<and> (admin_exists (db w) \<longrightarrow> admin_exists (db (serve_all calls w)))"
proof (intro conjI impI)
  assume "params_id req = ''0''"
  then show "db (snd (remove e req w)) = db w"
    by (simp add: remove_reserved split: option.splits)
next
  assume "params_id req = ''0''"
    and "(\<exists>j. req_jwt req = Some j \<and> jwt_admin j) \<and> \<not> rejected w \<and> admin_exists (db w)"
  then show "fst (remove e req w) = send 422 (Ko ''Admin user cannot be removed'')"
    by (auto simp add: remove_reserved)
next
  assume "admin_exists (db w)"
  then have "intact False w" by (simp add: intact_def)
  then have "intact False (serve_all calls w)" by (rule serve_all_keeps)
  then show "admin_exists (db (serve_all calls w))" by (simp add: intact_def)
qed

theorem admin_user_never_removed_witness:
  "db (snd (remove demo_env (demo_remove ''0'') (demo_world []))) = db (demo_world [])
   \<and> fst (remove demo_env (demo_remove ''0'') (demo_world []))
       = send 422 (Ko ''Admin user cannot be removed'')
   \<and> admin_exists
       (db (serve_all
              [(Remove, demo_env, demo_remove ''0''),
               (Remove, demo_env, demo_remove ''bob''),
               (Create, demo_env, demo_create),
               (Update, demo_env, demo_update [(''login'', JStr ''root'')])]
              (demo_world [False, False, True])))"
proof -
  have a: "params_id (demo_remove ''0'') = ''0''"
    and b: "\<exists>j. req_jwt (demo_remove ''0'') = Some j \<and> jwt_admin j"
    by (simp_all add: demo_remove_def demo_request_def)
  have c: "\<not> rejected (demo_world [])" "admin_exists (db (demo_world fs))" for fs
    by (simp_all add: rejected_def admin_exists_def demo_world_def demo_db_def demo_user_def)
  show ?thesis
    using admin_user_never_removed [of "demo_remove ''0''" demo_env "demo_world []" "[]"]
      admin_user_never_removed [of "demo_remove ''0''" demo_env "demo_world [False, False, True]"
        "[(Remove, demo_env, demo_remove ''0''),
          (Remove, demo_env, demo_remove ''bob''),
          (Create, demo_env, demo_create),
          (Update, demo_env, demo_update [(''login'', JStr ''root'')])]"]
      a b c
    by simp
qed

section \<open>The cascade of remove\<close>

text \<open>
  The model of \<^verbatim>\<open>$transaction\<close> is atomic for writes issued on the transaction client:
  if the callback fails, the store is as before; if it succeeds, both writes are in.
\<close>

lemma tx_rollback:
  "transaction (\<lambda>tx. await (mutate tx m1) (\<lambda>_. mutate tx m2)) w = (Inl err, w')
     \<Longrightarrow> db w' = db w"
  by (auto simp add: transaction_def await_def mutate_def Let_def
      split: prod.splits sum.splits if_splits)

lemma tx_commit:
  assumes "m1 (db w) = Inr d1" and "m2 d1 = Inr d2" and "faults w = []"
  shows "db (snd (transaction (\<lambda>tx. await (mutate tx m1) (\<lambda>_. mutate tx m2)) w)) = d2"
  using assms
  by (simp add: transaction_def await_def mutate_def Let_def rejected_def)

text \<open>
  C1. The claim is not what \<open>remove\<close> does. An administrator removes \<open>bob\<close>, who owns the
  personal folder \<open>P1\<close> with the items \<open>i1\<close> and \<open>i2\<close> and is a member of Everyone. The
  store rejects the fifth call of the request, the deletion of the folder: the
  answer is 500, \<open>bob\<close>'s membership and both items are gone, the folder and the user
  row remain. (With no call rejected, all four deletions are made and the answer is
  200.)
\<close>

theorem remove_partial_cascade:
  "fst (remove demo_env (demo_remove ''bob'') (demo_world [False, False, False, False, True]))
     = send 500 (Ko ''Internal error'')
   \<and> db (snd (remove demo_env (demo_remove ''bob'')
                (demo_world [False, False, False, False, True])))
     = demo_db\<lparr>items := [], usersGroups := [demo_membership ''m0'' ''0'' ''A'']\<rparr>
   \<and> fst (remove demo_env (demo_remove ''bob'') (demo_world []))
     = send 200 (Ok (Value (JStr ''Done'')))
   \<and> db (snd (remove demo_env (demo_remove ''bob'') (demo_world [])))
     = demo_db\<lparr>users := [demo_user ''0''], folders := [], items := [],
               usersGroups := [demo_membership ''m0'' ''0'' ''A'']\<rparr>"
  unfolding remove_def try_next_def Let_def
  by (simp add: await_isAdmin_request await_query await_mutate_prisma await_actions_log
      await_transaction await_assoc transaction_def mutate_def rejected_def
      users_findUnique_def usersGroups_deleteMany_def items_deleteMany_def folders_delete_def
      users_delete_def resolve_def demo_remove_def demo_request_def demo_world_def
      demo_db_def demo_user_def demo_folder_def demo_item_def demo_membership_def)

end
